theory Spec2Isabelle
  imports Complex_Main "HOL-Library.Word"
begin

section \<open>RayParticle3D: particles, emitters and their update step\<close>

text \<open>
  A shallow embedding of \<^verbatim>\<open>RayParticle3D.h\<close>.

  Conventions of the model:
  \<^item> A C++ \<^verbatim>\<open>float\<close> is a \<^typ>\<open>real\<close>; there is no NaN or infinity. The float
    operations on the age of a particle, on the spawn accumulator and on the colour of
    a draw call return the rounded exact result: the rounding function of the
    platform, \<open>round_float\<close>, is a parameter of the model. The vector arithmetic on
    position, velocity and scale and the sampling of \<open>Init\<close> are exact; what is proved
    about them compares two runs of the same arithmetic.
  \<^item> Where the source divides by a value that can be zero (the length in
    \<open>Vector3Normalize\<close>, the lifetime in \<^verbatim>\<open>Draw\<close>), the zero divisor is a case of the
    model.
  \<^item> \<^verbatim>\<open>size_t\<close> and \<^verbatim>\<open>unsigned long\<close> are 64 bits wide. A counter that cannot
    pass the length of the pool is a \<^typ>\<open>nat\<close>; a conversion into \<^verbatim>\<open>size_t\<close> is
    written out.
  \<^item> A conversion from \<^verbatim>\<open>float\<close> to an integer type whose truncated value does not
    fit the target has undefined behaviour in C++; the model returns \<open>None\<close> there.
  \<^item> raylib's random source is global state; the model passes it explicitly as a value
    of an arbitrary type \<open>'g\<close>, together with the function that draws from it.
  \<^item> \<^verbatim>\<open>std::for_each\<close> with \<^verbatim>\<open>par_unseq\<close> is modelled by the traversal in
    ascending slot order.
  \<^item> The model handle and the blend mode of the configuration are opaque render
    resources and are left out.
\<close>

subsection \<open>Vectors and colours (raylib)\<close>

record Vector3 =
  vx :: real
  vy :: real
  vz :: real

record Color =
  cr :: "8 word"
  cg :: "8 word"
  cb :: "8 word"
  ca :: "8 word"

text \<open>
  Modelled from the spec: raylib's \<^verbatim>\<open>raymath.h\<close> is not part of the repository. The spec
  takes its "3D vector/color arithmetic primitives" as given and uses them as the sum,
  the difference and the scaling of vectors, the "unit vector" toward a point and the
  "distance" between two points. Normalising the zero vector returns it unchanged, as
  raymath does.
\<close>

definition Vector3Add :: "Vector3 \<Rightarrow> Vector3 \<Rightarrow> Vector3" where
  "Vector3Add v1 v2 = \<lparr>vx = vx v1 + vx v2, vy = vy v1 + vy v2, vz = vz v1 + vz v2\<rparr>"

definition Vector3Subtract :: "Vector3 \<Rightarrow> Vector3 \<Rightarrow> Vector3" where
  "Vector3Subtract v1 v2 = \<lparr>vx = vx v1 - vx v2, vy = vy v1 - vy v2, vz = vz v1 - vz v2\<rparr>"

definition Vector3Scale :: "Vector3 \<Rightarrow> real \<Rightarrow> Vector3" where
  "Vector3Scale v s = \<lparr>vx = vx v * s, vy = vy v * s, vz = vz v * s\<rparr>"

definition Vector3Length :: "Vector3 \<Rightarrow> real" where
  "Vector3Length v = sqrt (vx v * vx v + vy v * vy v + vz v * vz v)"

definition Vector3Normalize :: "Vector3 \<Rightarrow> Vector3" where
  "Vector3Normalize v =
     (let len = Vector3Length v
      in if len \<noteq> 0 then Vector3Scale v (1 / len) else v)"

definition Vector3Distance :: "Vector3 \<Rightarrow> Vector3 \<Rightarrow> real" where
  "Vector3Distance v1 v2 = Vector3Length (Vector3Subtract v2 v1)"

text \<open>raylib's \<^verbatim>\<open>DEG2RAD\<close> macro.\<close>

definition DEG2RAD :: real where
  "DEG2RAD = pi / 180"

subsection \<open>The random source and the ranges\<close>

text \<open>
  \<^verbatim>\<open>GetRandomValue(min, max)\<close> is raylib's and \<^verbatim>\<open>RAND_MAX\<close> the C library's (a
  positive constant); both are parameters of the model. The generator state \<open>'g\<close> is
  threaded through every operation that draws. No property below depends on which
  values are drawn, except where a concrete source is named. \<open>round_float\<close> maps the
  exact result of a float operation to the float the platform stores.
\<close>

record 'g Platform =
  GetRandomValue :: "'g \<Rightarrow> int \<Rightarrow> int \<Rightarrow> int \<times> 'g"
  RAND_MAX :: int
  round_float :: "real \<Rightarrow> real"

record FloatRange =
  fmin :: real
  fmax :: real

record IntRange =
  imin :: int
  imax :: int

definition FloatRange_RandomValue :: "'g Platform \<Rightarrow> FloatRange \<Rightarrow> 'g \<Rightarrow> real \<times> 'g" where
  "FloatRange_RandomValue P rg g =
     (let (n, g') = GetRandomValue P g 0 (RAND_MAX P)
      in (real_of_int n / real_of_int (RAND_MAX P) * (fmax rg - fmin rg) + fmin rg, g'))"

definition IntRange_RandomValue :: "'g Platform \<Rightarrow> IntRange \<Rightarrow> 'g \<Rightarrow> int \<times> 'g" where
  "IntRange_RandomValue P rg g = GetRandomValue P g (imin rg) (imax rg)"

subsection \<open>Configuration and particle\<close>

record EmitterConfig =
  cfg_direction :: Vector3
  cfg_velocity :: FloatRange
  cfg_directionAngle :: FloatRange
  cfg_velocityAngle :: FloatRange
  cfg_offset :: FloatRange
  cfg_originAcceleration :: FloatRange
  cfg_age :: FloatRange
  cfg_burst :: IntRange
  cfg_capacity :: nat
  cfg_emissionRate :: nat
  cfg_origin :: Vector3
  cfg_externalAcceleration :: Vector3
  cfg_startColor :: Color
  cfg_endColor :: Color
  cfg_gravity :: real
  cfg_collision :: bool

record Particle =
  origin :: Vector3
  position :: Vector3
  velocity :: Vector3
  externalAcceleration :: Vector3
  originAcceleration :: real
  age :: real
  ttl :: real
  scale :: real
  active :: bool

definition IsExpired :: "Particle \<Rightarrow> bool" where
  "IsExpired p \<longleftrightarrow> age p > ttl p"

definition Rotate :: "Vector3 \<Rightarrow> real \<Rightarrow> real \<Rightarrow> Vector3" where
  "Rotate v angleX angleY =
     (let radY = angleY * DEG2RAD;
          rotatedY = \<lparr>vx = cos radY * vx v + sin radY * vz v,
                      vy = vy v,
                      vz = - sin radY * vx v + cos radY * vz v\<rparr>;
          radX = angleX * DEG2RAD
      in \<lparr>vx = vx rotatedY,
          vy = cos radX * vy rotatedY - sin radX * vz rotatedY,
          vz = sin radX * vy rotatedY + cos radX * vz rotatedY\<rparr>)"

text \<open>\<^verbatim>\<open>Particle::Init\<close>: six draws from the random source, in the order of the source.\<close>

definition Init :: "'g Platform \<Rightarrow> EmitterConfig \<Rightarrow> Particle \<Rightarrow> 'g \<Rightarrow> Particle \<times> 'g" where
  "Init P cfg p g =
     (let (randomAngleX, g1) = FloatRange_RandomValue P (cfg_directionAngle cfg) g;
          (randomAngleY, g2) = FloatRange_RandomValue P (cfg_velocityAngle cfg) g1;
          randomDir = Rotate (cfg_direction cfg) randomAngleX randomAngleY;
          (speed, g3) = FloatRange_RandomValue P (cfg_velocity cfg) g2;
          (off, g4) = FloatRange_RandomValue P (cfg_offset cfg) g3;
          (oa, g5) = FloatRange_RandomValue P (cfg_originAcceleration cfg) g4;
          (life, g6) = FloatRange_RandomValue P (cfg_age cfg) g5
      in (p\<lparr>age := 0,
            origin := cfg_origin cfg,
            velocity := Vector3Scale randomDir speed,
            position := Vector3Add (cfg_origin cfg) (Vector3Scale randomDir off),
            originAcceleration := oa,
            externalAcceleration := cfg_externalAcceleration cfg,
            ttl := life,
            scale := 1,
            active := True\<rparr>, g6))"

text \<open>
  \<^verbatim>\<open>Particle::Update\<close>. \<open>rnd\<close> is the rounding of the platform: \<^verbatim>\<open>age += dt\<close> stores the
  rounded sum, and the stored age is what \<^verbatim>\<open>IsExpired\<close> compares.
\<close>

definition Particle_Update ::
  "(real \<Rightarrow> real) \<Rightarrow> real \<Rightarrow> EmitterConfig \<Rightarrow> Particle \<Rightarrow> Particle"
where
  "Particle_Update rnd dt cfg p =
     (if \<not> active p then p
      else
        let p1 = p\<lparr>age := rnd (age p + dt)\<rparr>
        in if IsExpired p1 then p1\<lparr>active := False\<rparr>
           else
             let v1 = (velocity p1)\<lparr>vy := vy (velocity p1) - cfg_gravity cfg * dt\<rparr>;
                 toOrigin = Vector3Normalize (Vector3Subtract (origin p1) (position p1));
                 v2 = Vector3Add v1 (Vector3Scale toOrigin (originAcceleration p1 * dt));
                 v3 = Vector3Add v2 (Vector3Scale (externalAcceleration p1) dt);
                 pos1 = Vector3Add (position p1) (Vector3Scale v3 dt);
                 hit = (cfg_collision cfg \<and> vy pos1 \<le> 0);
                 pos2 = (if hit then pos1\<lparr>vy := 0\<rparr> else pos1);
                 v4 = (if hit then v3\<lparr>vy := vy v3 * (- 0.5)\<rparr> else v3)
             in p1\<lparr>velocity := v4,
                   position := pos2,
                   scale := 1 / (Vector3Distance pos2 (cfg_origin cfg) * 0.1 + 1)\<rparr>)"

subsection \<open>Conversions from float to integer types\<close>

text \<open>
  \<^verbatim>\<open>static_cast\<close> from \<^verbatim>\<open>float\<close> to an unsigned integer type discards the fractional
  part; the behaviour is undefined when the truncated value is not representable.
\<close>

definition truncate_float :: "real \<Rightarrow> int" where
  "truncate_float v = (if 0 \<le> v then \<lfloor>v\<rfloor> else \<lceil>v\<rceil>)"

definition float_to_size_t :: "real \<Rightarrow> nat option" where
  "float_to_size_t v =
     (if 0 \<le> truncate_float v \<and> truncate_float v < 2 ^ 64
      then Some (nat (truncate_float v)) else None)"

definition float_to_uchar :: "real \<Rightarrow> 8 word option" where
  "float_to_uchar v =
     (if 0 \<le> truncate_float v \<and> truncate_float v < 256
      then Some (word_of_int (truncate_float v)) else None)"

text \<open>The usual arithmetic conversion of an \<^verbatim>\<open>int\<close> compared with a \<^verbatim>\<open>size_t\<close>.\<close>

definition size_t_of_int :: "int \<Rightarrow> nat" where
  "size_t_of_int i = nat (i mod 2 ^ 64)"

subsection \<open>Emitter\<close>

record Emitter =
  config :: EmitterConfig
  mustEmit :: real
  isEmitting :: bool
  particles :: "Particle list"

text \<open>A value-initialised \<^verbatim>\<open>Particle\<close>, as \<^verbatim>\<open>std::vector::resize\<close> creates it.\<close>

definition Vector3Zero :: Vector3 where
  "Vector3Zero = \<lparr>vx = 0, vy = 0, vz = 0\<rparr>"

definition Particle_zero :: Particle where
  "Particle_zero =
     \<lparr>origin = Vector3Zero, position = Vector3Zero, velocity = Vector3Zero,
      externalAcceleration = Vector3Zero, originAcceleration = 0, age = 0, ttl = 0,
      scale = 0, active = False\<rparr>"

text \<open>The constructor \<^verbatim>\<open>Emitter::Emitter\<close>.\<close>

definition Emitter_ctor :: "EmitterConfig \<Rightarrow> Emitter" where
  "Emitter_ctor cfg =
     (let cfg' = cfg\<lparr>cfg_direction := Vector3Normalize (cfg_direction cfg)\<rparr>
      in \<lparr>config = cfg', mustEmit = 0, isEmitting = False,
          particles = replicate (cfg_capacity cfg') Particle_zero\<rparr>)"

definition Start :: "Emitter \<Rightarrow> Emitter" where
  "Start e = e\<lparr>isEmitting := True\<rparr>"

definition Stop :: "Emitter \<Rightarrow> Emitter" where
  "Stop e = e\<lparr>isEmitting := False\<rparr>"

text \<open>
  The loop of \<^verbatim>\<open>Emitter::Burst\<close>. \<open>emitted\<close> is the \<^verbatim>\<open>size_t\<close> counter and
  \<open>amount\<close> the sampled \<^verbatim>\<open>int\<close>; the test \<^verbatim>\<open>++emitted >= amount\<close> compares them as
  \<^verbatim>\<open>size_t\<close> and is made after the slot has been initialised.
\<close>

fun Burst_loop ::
  "'g Platform \<Rightarrow> EmitterConfig \<Rightarrow> int \<Rightarrow> Particle list \<Rightarrow> nat \<Rightarrow> 'g \<Rightarrow> Particle list \<times> 'g"
where
  "Burst_loop P cfg amount [] emitted g = ([], g)"
| "Burst_loop P cfg amount (p # ps) emitted g =
     (if \<not> active p then
        let (p', g') = Init P cfg p g;
            emitted' = (emitted + 1) mod 2 ^ 64
        in if emitted' \<ge> size_t_of_int amount then (p' # ps, g')
           else let (ps', g'') = Burst_loop P cfg amount ps emitted' g'
                in (p' # ps', g'')
      else
        let (ps', g') = Burst_loop P cfg amount ps emitted g
        in (p # ps', g'))"

definition Burst :: "'g Platform \<Rightarrow> Emitter \<Rightarrow> 'g \<Rightarrow> Emitter \<times> 'g" where
  "Burst P e g =
     (let (amount, g1) = IntRange_RandomValue P (cfg_burst (config e)) g;
          (ps, g2) = Burst_loop P (config e) amount (particles e) 0 g1
      in (e\<lparr>particles := ps\<rparr>, g2))"

text \<open>
  The traversal of \<^verbatim>\<open>Emitter::Update\<close>. The loop state is the spawn budget
  \<open>emitNow\<close>, the accumulator \<open>mustEmit\<close>, the returned \<open>counter\<close> and the random
  source. \<open>emitNow\<close> is decremented only when positive and \<open>counter\<close> grows by at most
  one per slot, so neither wraps. \<^verbatim>\<open>--mustEmit\<close> is a float subtraction and rounds.
\<close>

fun Update_loop ::
  "'g Platform \<Rightarrow> EmitterConfig \<Rightarrow> bool \<Rightarrow> real \<Rightarrow> Particle list \<Rightarrow>
     nat \<Rightarrow> real \<Rightarrow> nat \<Rightarrow> 'g \<Rightarrow> Particle list \<times> nat \<times> real \<times> nat \<times> 'g"
where
  "Update_loop P cfg emitting dt [] emitNow m counter g = ([], emitNow, m, counter, g)"
| "Update_loop P cfg emitting dt (p # ps) emitNow m counter g =
     (if active p then
        let (ps', r) = Update_loop P cfg emitting dt ps emitNow m (counter + 1) g
        in (Particle_Update (round_float P) dt cfg p # ps', r)
      else if emitting \<and> emitNow > 0 then
        let (p1, g1) = Init P cfg p g;
            (ps', r) = Update_loop P cfg emitting dt ps (emitNow - 1)
                         (round_float P (m - 1)) (counter + 1) g1
        in (Particle_Update (round_float P) dt cfg p1 # ps', r)
      else
        let (ps', r) = Update_loop P cfg emitting dt ps emitNow m counter g
        in (p # ps', r))"

text \<open>
  \<^verbatim>\<open>Emitter::Update\<close> returns the counter; the model returns it with the new emitter
  and random source, or \<open>None\<close> when the conversion of the accumulator is undefined. In
  \<^verbatim>\<open>mustEmit += dt * static_cast<float>(config.emissionRate)\<close> the conversion, the product
  and the sum each round.
\<close>

definition Emitter_Update :: "'g Platform \<Rightarrow> real \<Rightarrow> Emitter \<Rightarrow> 'g \<Rightarrow> (nat \<times> Emitter \<times> 'g) option" where
  "Emitter_Update P dt e g =
     (let m0 = (if isEmitting e
                then round_float P
                       (mustEmit e
                        + round_float P (dt * round_float P (real (cfg_emissionRate (config e)))))
                else mustEmit e)
      in case (if isEmitting e then float_to_size_t m0 else Some 0) of
           None \<Rightarrow> None
         | Some emitNow \<Rightarrow>
             let (ps, emitNow', m', counter, g') =
                   Update_loop P (config e) (isEmitting e) dt (particles e) emitNow m0 0 g
             in Some (counter, e\<lparr>mustEmit := m', particles := ps\<rparr>, g'))"

text \<open>
  \<^verbatim>\<open>Emitter::LinearFade\<close>. The channels are promoted to \<^verbatim>\<open>int\<close> before the
  subtraction; the difference and the start channel are converted to \<^verbatim>\<open>float\<close>, the
  product and the sum are float operations, and the result of each channel is converted
  back to \<^verbatim>\<open>unsigned char\<close>.
\<close>

definition fade_channel :: "(real \<Rightarrow> real) \<Rightarrow> 8 word \<Rightarrow> 8 word \<Rightarrow> real \<Rightarrow> 8 word option" where
  "fade_channel rnd k1 k2 fraction =
     float_to_uchar
       (rnd (rnd (rnd (real_of_int (uint k2 - uint k1)) * fraction)
             + rnd (real_of_int (uint k1))))"

definition LinearFade :: "(real \<Rightarrow> real) \<Rightarrow> Color \<Rightarrow> Color \<Rightarrow> real \<Rightarrow> Color option" where
  "LinearFade rnd c1 c2 fraction =
     (case (fade_channel rnd (cr c1) (cr c2) fraction, fade_channel rnd (cg c1) (cg c2) fraction,
            fade_channel rnd (cb c1) (cb c2) fraction, fade_channel rnd (ca c1) (ca c2) fraction) of
        (Some r', Some g', Some b', Some a') \<Rightarrow> Some \<lparr>cr = r', cg = g', cb = b', ca = a'\<rparr>
      | _ \<Rightarrow> None)"

text \<open>
  \<^verbatim>\<open>Emitter::Draw\<close>, as the list of the draw calls it issues: position, scale and
  tint of every active slot, in slot order. The fraction \<^verbatim>\<open>p.age / p.ttl\<close> is a float
  division. With \<open>ttl = 0\<close> the fraction is infinite or NaN in the source and its
  conversion is undefined.
\<close>

definition Draw :: "'g Platform \<Rightarrow> Emitter \<Rightarrow> (Vector3 \<times> real \<times> Color option) list" where
  "Draw P e =
     map (\<lambda>p. (position p, scale p,
               if ttl p = 0 then None
               else LinearFade (round_float P) (cfg_startColor (config e))
                      (cfg_endColor (config e)) (round_float P (age p / ttl p))))
       (filter active (particles e))"

subsection \<open>Sequences of calls\<close>

datatype call = CallStart | CallStop | CallBurst | CallUpdate real

text \<open>
  \<open>run\<close> performs the calls in order and collects what the \<^verbatim>\<open>Update\<close> calls
  returned.
\<close>

fun run :: "'g Platform \<Rightarrow> call list \<Rightarrow> Emitter \<Rightarrow> 'g \<Rightarrow> (nat list \<times> Emitter \<times> 'g) option" where
  "run P [] e g = Some ([], e, g)"
| "run P (CallStart # cs) e g = run P cs (Start e) g"
| "run P (CallStop # cs) e g = run P cs (Stop e) g"
| "run P (CallBurst # cs) e g = (let (e', g') = Burst P e g in run P cs e' g')"
| "run P (CallUpdate dt # cs) e g =
     (case Emitter_Update P dt e g of
        None \<Rightarrow> None
      | Some (n, e', g') \<Rightarrow>
          (case run P cs e' g' of
             None \<Rightarrow> None
           | Some (ns, e'', g'') \<Rightarrow> Some (n # ns, e'', g'')))"

definition activeCount :: "Particle list \<Rightarrow> nat" where
  "activeCount ps = length (filter active ps)"

definition inactiveCount :: "Particle list \<Rightarrow> nat" where
  "inactiveCount ps = length (filter (\<lambda>p. \<not> active p) ps)"

text \<open>
  The number of slots one traversal of \<^verbatim>\<open>Emitter::Update\<close> initialises: the spawn
  budget, as far as inactive slots are there to take it.
\<close>

definition spawnCount :: "bool \<Rightarrow> nat \<Rightarrow> Particle list \<Rightarrow> nat" where
  "spawnCount emitting emitNow ps = (if emitting then min emitNow (inactiveCount ps) else 0)"

subsection \<open>Concrete inputs\<close>

text \<open>
  A rounding to the nearest multiple of \<open>1 / 2 ^ 24\<close>, a half rounded up: a fixed-point
  format with 24 fractional bits.
\<close>

definition grid_round :: "real \<Rightarrow> real" where
  "grid_round v = real_of_int \<lfloor>v * 2 ^ 24 + 1 / 2\<rfloor> / 2 ^ 24"

text \<open>
  A random source that replays a script: each draw takes the next number of the list and
  maps it into the requested interval; the exhausted script yields the lower bound. Its
  float arithmetic rounds to the grid.
\<close>

definition scripted_Platform :: "int list Platform" where
  "scripted_Platform =
     \<lparr>GetRandomValue = (\<lambda>g lo hi. case g of
          [] \<Rightarrow> (lo, [])
        | n # ns \<Rightarrow> (lo + n mod (\<bar>hi - lo\<bar> + 1), ns)),
      RAND_MAX = 2147483647,
      round_float = grid_round\<rparr>"

text \<open>The ember emitter of the demo program.\<close>

definition emberEmitterConfig :: EmitterConfig where
  "emberEmitterConfig =
     \<lparr>cfg_direction = \<lparr>vx = 0, vy = 1, vz = 0\<rparr>,
      cfg_velocity = \<lparr>fmin = 1.5, fmax = 3\<rparr>,
      cfg_directionAngle = \<lparr>fmin = - 15, fmax = 15\<rparr>,
      cfg_velocityAngle = \<lparr>fmin = - 10, fmax = 10\<rparr>,
      cfg_offset = \<lparr>fmin = 0, fmax = 0.5\<rparr>,
      cfg_originAcceleration = \<lparr>fmin = 0, fmax = 0\<rparr>,
      cfg_age = \<lparr>fmin = 5, fmax = 15\<rparr>,
      cfg_burst = \<lparr>imin = 0, imax = 0\<rparr>,
      cfg_capacity = 100,
      cfg_emissionRate = 50,
      cfg_origin = \<lparr>vx = 0, vy = - 2, vz = 0\<rparr>,
      cfg_externalAcceleration = \<lparr>vx = 0, vy = 0, vz = 0\<rparr>,
      cfg_startColor = \<lparr>cr = 255, cg = 100, cb = 0, ca = 255\<rparr>,
      cfg_endColor = \<lparr>cr = 255, cg = 100, cb = 0, ca = 0\<rparr>,
      cfg_gravity = 0.1,
      cfg_collision = True\<rparr>"

text \<open>An ember above the ground plane, falling fast enough to cross it in half a second.\<close>

definition ember :: Particle where
  "ember =
     \<lparr>origin = \<lparr>vx = 0, vy = - 2, vz = 0\<rparr>,
      position = \<lparr>vx = 0, vy = 1, vz = 0\<rparr>,
      velocity = \<lparr>vx = 0, vy = - 4, vz = 0\<rparr>,
      externalAcceleration = \<lparr>vx = 0, vy = 0, vz = 0\<rparr>,
      originAcceleration = 0, age = 0, ttl = 5, scale = 1, active = True\<rparr>"

text \<open>
  A two-slot emitter without angular jitter: every particle is born one unit above the
  origin, at rest, attracted with strength 1, and lives one second.
\<close>

definition sparkConfig :: EmitterConfig where
  "sparkConfig =
     \<lparr>cfg_direction = \<lparr>vx = 0, vy = 1, vz = 0\<rparr>,
      cfg_velocity = \<lparr>fmin = 0, fmax = 0\<rparr>,
      cfg_directionAngle = \<lparr>fmin = 0, fmax = 0\<rparr>,
      cfg_velocityAngle = \<lparr>fmin = 0, fmax = 0\<rparr>,
      cfg_offset = \<lparr>fmin = 1, fmax = 1\<rparr>,
      cfg_originAcceleration = \<lparr>fmin = 1, fmax = 1\<rparr>,
      cfg_age = \<lparr>fmin = 1, fmax = 1\<rparr>,
      cfg_burst = \<lparr>imin = 1, imax = 1\<rparr>,
      cfg_capacity = 2,
      cfg_emissionRate = 10,
      cfg_origin = \<lparr>vx = 0, vy = 0, vz = 0\<rparr>,
      cfg_externalAcceleration = \<lparr>vx = 0, vy = 0, vz = 0\<rparr>,
      cfg_startColor = \<lparr>cr = 255, cg = 150, cb = 0, ca = 255\<rparr>,
      cfg_endColor = \<lparr>cr = 255, cg = 50, cb = 0, ca = 0\<rparr>,
      cfg_gravity = 0,
      cfg_collision = False\<rparr>"

definition spark :: Particle where
  "spark = fst (Init scripted_Platform sparkConfig Particle_zero [])"

text \<open>A stopped spark emitter whose first slot holds a spark at half its life.\<close>

definition halfSpark :: Particle where
  "halfSpark = spark\<lparr>age := 1 / 2\<rparr>"

definition halfSparkEmitter :: Emitter where
  "halfSparkEmitter =
     \<lparr>config = sparkConfig, mustEmit = 0, isEmitting = False,
      particles = [halfSpark, Particle_zero]\<rparr>"

subsection \<open>Notions of the specification\<close>

text \<open>
  A sequence of calls on an emitter whose flag is \<open>b\<close> in which \<^verbatim>\<open>Burst\<close> does not
  occur and every \<^verbatim>\<open>Update\<close> finds \<^verbatim>\<open>isEmitting\<close> false.
\<close>

fun never_emitting :: "bool \<Rightarrow> call list \<Rightarrow> bool" where
  "never_emitting b [] = True"
| "never_emitting b (CallStart # cs) = never_emitting True cs"
| "never_emitting b (CallStop # cs) = never_emitting False cs"
| "never_emitting b (CallBurst # cs) = False"
| "never_emitting b (CallUpdate dt # cs) = (\<not> b \<and> never_emitting b cs)"

text \<open>The number of \<^verbatim>\<open>Update\<close> calls in a sequence.\<close>

fun count_updates :: "call list \<Rightarrow> nat" where
  "count_updates [] = 0"
| "count_updates (CallUpdate dt # cs) = Suc (count_updates cs)"
| "count_updates (c # cs) = count_updates cs"

text \<open>The linear interpolation of one colour channel, as a real number.\<close>

definition channel_lerp :: "8 word \<Rightarrow> 8 word \<Rightarrow> real \<Rightarrow> real" where
  "channel_lerp k1 k2 fraction =
     real_of_int (uint k1) + (real_of_int (uint k2) - real_of_int (uint k1)) * fraction"

text \<open>
  What the theorems about rounded results ask of a rounding function, for a range bound
  \<open>B\<close> and an error bound \<open>\<epsilon>\<close>: it is monotone; it keeps every integer of magnitude up
  to \<open>B\<close>; on arguments of magnitude up to \<open>B\<close> its error is at most \<open>\<epsilon>\<close>; it keeps what it
  returns; and one less than a kept value between 1 and \<open>B\<close> is kept. Rounding to nearest
  in IEEE single precision has these properties for \<open>1 \<le> B \<le> 2^24\<close> and \<open>\<epsilon> = B / 2^24\<close>.
\<close>

definition float_rounding :: "(real \<Rightarrow> real) \<Rightarrow> real \<Rightarrow> real \<Rightarrow> bool" where
  "float_rounding rnd B \<epsilon> \<longleftrightarrow>
     (\<forall>v w. v \<le> w \<longrightarrow> rnd v \<le> rnd w)
   \<and> (\<forall>i :: int. \<bar>real_of_int i\<bar> \<le> B \<longrightarrow> rnd (real_of_int i) = real_of_int i)
   \<and> (\<forall>v. \<bar>v\<bar> \<le> B \<longrightarrow> \<bar>rnd v - v\<bar> \<le> \<epsilon>)
   \<and> (\<forall>v. rnd (rnd v) = rnd v)
   \<and> (\<forall>v. rnd v = v \<and> 1 \<le> v \<and> v \<le> B \<longrightarrow> rnd (v - 1) = v - 1)"


text \<open>
  A channel value \<open>w\<close> that is the interpolated value \<open>channel_lerp k1 k2 fraction\<close> with
  its fractional part cut off, up to an error \<open>\<delta>\<close> of the interpolation, and that lies
  between the two channels.
\<close>

definition near_lerp :: "real \<Rightarrow> 8 word \<Rightarrow> 8 word \<Rightarrow> real \<Rightarrow> 8 word \<Rightarrow> bool" where
  "near_lerp \<delta> k1 k2 fraction w \<longleftrightarrow>
     channel_lerp k1 k2 fraction - \<delta> - 1 < real_of_int (uint w)
   \<and> real_of_int (uint w) \<le> channel_lerp k1 k2 fraction + \<delta>
   \<and> min (uint k1) (uint k2) \<le> uint w
   \<and> uint w \<le> max (uint k1) (uint k2)"



section \<open>Rounding functions\<close>

lemma float_roundingD:
  assumes "float_rounding rnd B \<epsilon>"
  shows "v \<le> w \<Longrightarrow> rnd v \<le> rnd w"
    and "\<bar>real_of_int i\<bar> \<le> B \<Longrightarrow> rnd (real_of_int i) = real_of_int i"
    and "\<bar>v\<bar> \<le> B \<Longrightarrow> \<bar>rnd v - v\<bar> \<le> \<epsilon>"
    and "rnd (rnd v) = rnd v"
    and "rnd v = v \<Longrightarrow> 1 \<le> v \<Longrightarrow> v \<le> B \<Longrightarrow> rnd (v - 1) = v - 1"
  using assms unfolding float_rounding_def by blast+

lemma float_rounding_zero:
  assumes "float_rounding rnd B \<epsilon>" and "0 \<le> B"
  shows "rnd 0 = 0" and "0 \<le> \<epsilon>"
proof -
  from float_roundingD(2)[OF assms(1), of 0] assms(2) show "rnd 0 = 0" by simp
  with float_roundingD(3)[OF assms(1), of 0] assms(2) show "0 \<le> \<epsilon>" by simp
qed

lemma float_rounding_one:
  assumes "float_rounding rnd B \<epsilon>" and "1 \<le> B"
  shows "rnd 1 = 1"
  using float_roundingD(2)[OF assms(1), of 1] assms(2) by simp

lemma grid_round_alt: "grid_round v = real_of_int (round (v * 2 ^ 24)) / 2 ^ 24"
  by (simp add: grid_round_def round_def)

lemma grid_round_of_int: "grid_round (real_of_int i / 2 ^ 24) = real_of_int i / 2 ^ 24"
proof -
  have "\<lfloor>real_of_int i + 1 / 2\<rfloor> = i" by linarith
  then show ?thesis by (simp add: grid_round_def)
qed

lemma grid_round_rounding: "float_rounding grid_round B (1 / 2 ^ 25)"
  unfolding float_rounding_def
proof (intro conjI allI impI)
  fix v w :: real
  assume "v \<le> w"
  then have "v * 2 ^ 24 + 1 / 2 \<le> w * 2 ^ 24 + 1 / 2" by simp
  then have "\<lfloor>v * 2 ^ 24 + 1 / 2\<rfloor> \<le> \<lfloor>w * 2 ^ 24 + 1 / 2\<rfloor>" by (rule floor_mono)
  then show "grid_round v \<le> grid_round w"
    by (simp add: grid_round_def divide_right_mono)
next
  fix i :: int
  have "real_of_int i = real_of_int (i * 2 ^ 24) / 2 ^ 24" by simp
  then show "grid_round (real_of_int i) = real_of_int i"
    using grid_round_of_int[of "i * 2 ^ 24"] by simp
next
  fix v :: real
  define y where "y = v * 2 ^ 24"
  define z where "z = real_of_int \<lfloor>y + 1 / 2\<rfloor>"
  have "\<bar>z - y\<bar> \<le> 1 / 2" unfolding z_def by linarith
  then have "\<bar>z - y\<bar> / 2 ^ 24 \<le> (1 / 2) / 2 ^ 24"
    by (rule divide_right_mono) simp
  moreover have "grid_round v - v = (z - y) / 2 ^ 24"
    unfolding z_def y_def grid_round_def by (simp add: diff_divide_distrib)
  moreover have "\<bar>(z - y) / 2 ^ 24\<bar> = \<bar>z - y\<bar> / 2 ^ 24"
    by (rule abs_div_pos[symmetric]) simp
  ultimately have "\<bar>grid_round v - v\<bar> \<le> (1 / 2) / 2 ^ 24" by (simp only:)
  then show "\<bar>grid_round v - v\<bar> \<le> 1 / 2 ^ 25" by simp
next
  fix v :: real
  show "grid_round (grid_round v) = grid_round v"
    unfolding grid_round_def[of v] by (rule grid_round_of_int)
next
  fix v :: real
  assume "grid_round v = v \<and> 1 \<le> v \<and> v \<le> B"
  then have v: "v = real_of_int \<lfloor>v * 2 ^ 24 + 1 / 2\<rfloor> / 2 ^ 24"
    by (simp add: grid_round_def)
  define j where "j = \<lfloor>v * 2 ^ 24 + 1 / 2\<rfloor> - 2 ^ 24"
  have e: "v - 1 = real_of_int j / 2 ^ 24"
    unfolding j_def by (subst v) (simp add: field_simps)
  have "grid_round (v - 1) = grid_round (real_of_int j / 2 ^ 24)" by (simp only: e)
  also have "\<dots> = real_of_int j / 2 ^ 24" by (rule grid_round_of_int)
  finally show "grid_round (v - 1) = v - 1" by (simp only: e)
qed

section \<open>Properties of a single particle\<close>

lemma spark_eq:
  "spark = \<lparr>origin = Vector3Zero, position = \<lparr>vx = 0, vy = 1, vz = 0\<rparr>,
            velocity = Vector3Zero, externalAcceleration = Vector3Zero,
            originAcceleration = 1, age = 0, ttl = 1, scale = 1, active = True\<rparr>"
  by (simp add: spark_def Init_def FloatRange_RandomValue_def scripted_Platform_def
      sparkConfig_def Rotate_def Let_def Particle_zero_def Vector3Scale_def Vector3Add_def
      Vector3Zero_def)

lemma Particle_Update_active: "active (Particle_Update rnd dt cfg p) \<Longrightarrow> active p"
  by (auto simp: Particle_Update_def Let_def split: if_splits)

lemma Init_active: "active (fst (Init P cfg p g))"
  by (simp add: Init_def Let_def split: prod.splits)

text \<open>The modelled \<open>Vector3Normalize\<close> does return a unit vector, the zero vector apart.\<close>

lemma unit_aux:
  fixes a b c l :: real
  assumes "0 < l" "l * l = a * a + b * b + c * c"
  shows "a * (1 / l) * (a * (1 / l)) + b * (1 / l) * (b * (1 / l)) + c * (1 / l) * (c * (1 / l)) = 1"
proof -
  have "a * (1 / l) * (a * (1 / l)) + b * (1 / l) * (b * (1 / l)) + c * (1 / l) * (c * (1 / l))
        = (a * a + b * b + c * c) / (l * l)"
    by (simp add: add_divide_distrib)
  also have "\<dots> = (l * l) / (l * l)" using assms(2) by simp
  also have "\<dots> = 1" using assms(1) by simp
  finally show ?thesis .
qed

lemma Vector3Normalize_unit:
  assumes nz: "Vector3Length v \<noteq> 0"
  shows "Vector3Length (Vector3Normalize v) = 1"
proof -
  let ?s = "vx v * vx v + vy v * vy v + vz v * vz v"
  have s0: "0 \<le> ?s" by (simp add: add_nonneg_nonneg)
  have "?s \<noteq> 0" using nz by (simp add: Vector3Length_def)
  with s0 have "0 < ?s" by linarith
  then have pos: "0 < sqrt ?s" by simp
  have sq: "sqrt ?s * sqrt ?s = ?s" using s0 by simp
  show ?thesis using nz unit_aux[OF pos sq]
    by (simp add: Vector3Normalize_def Vector3Length_def Vector3Scale_def Let_def)
qed

text \<open>
  Claim C5. Expiry is the strict comparison \<open>age > ttl\<close>: a particle whose age equals its
  ttl is not expired. An update of an active particle stores the rounded sum of age and
  \<open>dt\<close>; if the stored age is at most the ttl, the equal case included, the particle
  stays active. If the stored age is greater than the ttl, the update returns the
  particle with only the new age and \<open>active = false\<close>: position, velocity and scale (and
  every other field) keep their values.
\<close>

theorem expiry_is_strict_and_freezes_the_particle:
  "(IsExpired p \<longleftrightarrow> ttl p < age p)
   \<and> \<not> IsExpired (p\<lparr>age := ttl p\<rparr>)
   \<and> (active p \<longrightarrow> age (Particle_Update rnd dt cfg p) = rnd (age p + dt))
   \<and> (active p \<and> age (Particle_Update rnd dt cfg p) \<le> ttl p \<longrightarrow>
        active (Particle_Update rnd dt cfg p))
   \<and> (active p \<and> ttl p < age (Particle_Update rnd dt cfg p) \<longrightarrow>
        Particle_Update rnd dt cfg p = p\<lparr>age := rnd (age p + dt), active := False\<rparr>
        \<and> \<not> active (Particle_Update rnd dt cfg p)
        \<and> position (Particle_Update rnd dt cfg p) = position p
        \<and> velocity (Particle_Update rnd dt cfg p) = velocity p
        \<and> scale (Particle_Update rnd dt cfg p) = scale p)"
  by (cases "ttl p < rnd (age p + dt)")
     (simp_all add: IsExpired_def Particle_Update_def Let_def)

theorem expiry_is_strict_witness:
  "(active spark \<and> age (Particle_Update grid_round 1 sparkConfig spark) = ttl spark
      \<and> active (Particle_Update grid_round 1 sparkConfig spark))
   \<and> (active spark \<and> ttl spark < age (Particle_Update grid_round 2 sparkConfig spark)
      \<and> Particle_Update grid_round 2 sparkConfig spark = spark\<lparr>age := 2, active := False\<rparr>
      \<and> position (Particle_Update grid_round 2 sparkConfig spark) = position spark
      \<and> velocity (Particle_Update grid_round 2 sparkConfig spark) = velocity spark
      \<and> scale (Particle_Update grid_round 2 sparkConfig spark) = scale spark)"
proof -
  have a: "active spark" by (simp add: spark_eq)
  have r: "grid_round (age spark + 1) = 1" "grid_round (age spark + 2) = 2" "ttl spark = 1"
    by (simp_all add: spark_eq grid_round_def)
  from a r expiry_is_strict_and_freezes_the_particle [of spark grid_round 1 sparkConfig]
  have one: "age (Particle_Update grid_round 1 sparkConfig spark) = ttl spark
             \<and> active (Particle_Update grid_round 1 sparkConfig spark)"
    by simp
  from a r expiry_is_strict_and_freezes_the_particle [of spark grid_round 2 sparkConfig]
  have two: "ttl spark < age (Particle_Update grid_round 2 sparkConfig spark)
      \<and> Particle_Update grid_round 2 sparkConfig spark = spark\<lparr>age := 2, active := False\<rparr>
      \<and> position (Particle_Update grid_round 2 sparkConfig spark) = position spark
      \<and> velocity (Particle_Update grid_round 2 sparkConfig spark) = velocity spark
      \<and> scale (Particle_Update grid_round 2 sparkConfig spark) = scale spark"
    by simp
  from a one two show ?thesis by blast
qed

text \<open>
  Claim C6. Take an active particle and an update that does not expire it (the stored
  age after the step is at most the ttl), and compare
  the update with the same update under \<open>collision = false\<close>, which is the plain
  integration \<open>position + velocity * dt\<close>. With collision enabled and the integrated
  height at or below 0, the update returns height exactly 0 and the integrated vertical
  velocity times \<open>-0.5\<close>, the other coordinates as integrated. In every other case
  (collision off, or the height above 0) position and velocity are the integrated ones.
\<close>

theorem collision_clamps_and_damps:
  assumes "active p" and "rnd (age p + dt) \<le> ttl p"
  shows "let free = Particle_Update rnd dt (cfg\<lparr>cfg_collision := False\<rparr>) p;
             q = Particle_Update rnd dt cfg p
         in position free = Vector3Add (position p) (Vector3Scale (velocity free) dt)
          \<and> (if cfg_collision cfg \<and> vy (position free) \<le> 0
              then position q = (position free)\<lparr>vy := 0\<rparr>
                 \<and> velocity q = (velocity free)\<lparr>vy := vy (velocity free) * (- 0.5)\<rparr>
              else position q = position free \<and> velocity q = velocity free)"
  using assms by (simp add: IsExpired_def Particle_Update_def Let_def)

theorem collision_clamps_and_damps_witness:
  "active ember \<and> grid_round (age ember + 1 / 2) \<le> ttl ember
   \<and> vy (position (Particle_Update grid_round (1 / 2)
                      (emberEmitterConfig\<lparr>cfg_collision := False\<rparr>) ember))
       = - 1.025
   \<and> vy (velocity (Particle_Update grid_round (1 / 2)
                      (emberEmitterConfig\<lparr>cfg_collision := False\<rparr>) ember))
       = - 4.05
   \<and> vy (position (Particle_Update grid_round (1 / 2) emberEmitterConfig ember)) = 0
   \<and> vy (velocity (Particle_Update grid_round (1 / 2) emberEmitterConfig ember)) = 2.025"
proof -
  have a: "active ember" and t: "grid_round (age ember + 1 / 2) \<le> ttl ember"
    by (simp_all add: ember_def grid_round_def)
  have free:
    "vy (position (Particle_Update grid_round (1 / 2)
                     (emberEmitterConfig\<lparr>cfg_collision := False\<rparr>) ember))
       = - 1.025"
    "vy (velocity (Particle_Update grid_round (1 / 2)
                     (emberEmitterConfig\<lparr>cfg_collision := False\<rparr>) ember))
       = - 4.05"
    by (simp_all add: ember_def emberEmitterConfig_def Particle_Update_def IsExpired_def Let_def
        Vector3Normalize_def Vector3Subtract_def Vector3Scale_def Vector3Add_def
        Vector3Length_def grid_round_def)
  have hit: "cfg_collision emberEmitterConfig" by (simp add: emberEmitterConfig_def)
  show ?thesis
    using a t free hit collision_clamps_and_damps
        [where rnd = grid_round and p = ember and dt = "1 / 2" and cfg = emberEmitterConfig,
         OF a t]
    by (simp add: Let_def)
qed

text \<open>
  Claim C2, as stated, fails. A spark is spawned with the emitter origin at \<open>(0, 0, 0)\<close>;
  it sits at \<open>(0, 1, 0)\<close>, at rest. The origin of the configuration is then moved to
  \<open>(0, 5, 0)\<close>, above the spark. An attraction toward the live origin would add
  \<open>(0, 1/2, 0)\<close> to the velocity in half a second; the update adds \<open>(0, -1/2, 0)\<close>,
  toward the origin recorded at spawn time.
\<close>

theorem attraction_toward_live_origin_counterexample:
  "velocity spark = Vector3Zero
   \<and> Vector3Scale
        (Vector3Normalize (Vector3Subtract \<lparr>vx = 0, vy = 5, vz = 0\<rparr> (position spark)))
        (originAcceleration spark * (1 / 2)) = \<lparr>vx = 0, vy = 1 / 2, vz = 0\<rparr>
   \<and> velocity (Particle_Update grid_round (1 / 2)
                 (sparkConfig\<lparr>cfg_origin := \<lparr>vx = 0, vy = 5, vz = 0\<rparr>\<rparr>) spark)
       = \<lparr>vx = 0, vy = - (1 / 2), vz = 0\<rparr>"
  by (simp add: spark_eq Particle_Update_def IsExpired_def Let_def sparkConfig_def
      Vector3Zero_def Vector3Normalize_def Vector3Subtract_def Vector3Scale_def
      Vector3Add_def Vector3Length_def grid_round_def)

text \<open>
  Claim C2, amended. \<open>Init\<close> records the origin of the configuration in the particle,
  and no update changes the record. For an active particle and an update that does not
  expire it, the velocity and the position after the update do not depend on the origin
  of the configuration passed to the update; and the velocity the attraction contributes
  (the difference to the same update of the same particle without attraction strength,
  collision off) is \<open>originAcceleration * dt\<close> along the normalised vector from the
  position to the recorded origin.
\<close>

theorem attraction_targets_recorded_origin:
  assumes "active p" and "rnd (age p + dt) \<le> ttl p"
  shows "origin (fst (Init P cfg p0 g)) = cfg_origin cfg
       \<and> origin (Particle_Update rnd dt cfg p) = origin p
       \<and> velocity (Particle_Update rnd dt (cfg\<lparr>cfg_origin := o'\<rparr>) p)
           = velocity (Particle_Update rnd dt cfg p)
       \<and> position (Particle_Update rnd dt (cfg\<lparr>cfg_origin := o'\<rparr>) p)
           = position (Particle_Update rnd dt cfg p)
       \<and> Vector3Subtract
            (velocity (Particle_Update rnd dt (cfg\<lparr>cfg_collision := False\<rparr>) p))
            (velocity (Particle_Update rnd dt (cfg\<lparr>cfg_collision := False\<rparr>)
                         (p\<lparr>originAcceleration := 0\<rparr>)))
           = Vector3Scale (Vector3Normalize (Vector3Subtract (origin p) (position p)))
               (originAcceleration p * dt)"
proof -
  have "origin (fst (Init P cfg p0 g)) = cfg_origin cfg"
    by (simp add: Init_def Let_def split: prod.splits)
  moreover have "origin (Particle_Update rnd dt cfg p) = origin p"
    by (simp add: Particle_Update_def Let_def)
  moreover have "velocity (Particle_Update rnd dt (cfg\<lparr>cfg_origin := o'\<rparr>) p)
                   = velocity (Particle_Update rnd dt cfg p)"
    and "position (Particle_Update rnd dt (cfg\<lparr>cfg_origin := o'\<rparr>) p)
           = position (Particle_Update rnd dt cfg p)"
    by (simp_all add: Particle_Update_def IsExpired_def Let_def)
  moreover have "Vector3Subtract
            (velocity (Particle_Update rnd dt (cfg\<lparr>cfg_collision := False\<rparr>) p))
            (velocity (Particle_Update rnd dt (cfg\<lparr>cfg_collision := False\<rparr>)
                         (p\<lparr>originAcceleration := 0\<rparr>)))
           = Vector3Scale (Vector3Normalize (Vector3Subtract (origin p) (position p)))
               (originAcceleration p * dt)"
    using assms
    by (simp add: Particle_Update_def IsExpired_def Let_def Vector3Subtract_def
        Vector3Add_def Vector3Scale_def)
  ultimately show ?thesis by blast
qed

theorem attraction_targets_recorded_origin_witness:
  "active spark \<and> grid_round (age spark + 1 / 2) \<le> ttl spark
   \<and> origin (fst (Init scripted_Platform sparkConfig Particle_zero [])) = cfg_origin sparkConfig
   \<and> velocity (Particle_Update grid_round (1 / 2)
                 (sparkConfig\<lparr>cfg_origin := \<lparr>vx = 0, vy = 5, vz = 0\<rparr>\<rparr>) spark)
       = velocity (Particle_Update grid_round (1 / 2) sparkConfig spark)
   \<and> velocity (Particle_Update grid_round (1 / 2) sparkConfig spark)
       = \<lparr>vx = 0, vy = - (1 / 2), vz = 0\<rparr>"
proof -
  have a: "active spark" and t: "grid_round (age spark + 1 / 2) \<le> ttl spark"
    by (simp_all add: spark_eq grid_round_def)
  have v: "velocity (Particle_Update grid_round (1 / 2) sparkConfig spark)
             = \<lparr>vx = 0, vy = - (1 / 2), vz = 0\<rparr>"
    by (simp add: spark_eq Particle_Update_def IsExpired_def Let_def sparkConfig_def
        Vector3Zero_def Vector3Normalize_def Vector3Subtract_def Vector3Scale_def
        Vector3Add_def Vector3Length_def grid_round_def)
  show ?thesis
    using a t v
      attraction_targets_recorded_origin
        [where rnd = grid_round and p = spark and dt = "1 / 2" and P = scripted_Platform
           and cfg = sparkConfig and ?p0.0 = Particle_zero and g = "[]"
           and o' = "\<lparr>vx = 0, vy = 5, vz = 0\<rparr>", OF a t]
    by simp
qed

section \<open>Properties of the emitter\<close>

subsection \<open>The traversals\<close>

lemma Update_loop_length:
  "Update_loop P cfg em dt ps k m c g = (ps', k', m', c', g') \<Longrightarrow> length ps' = length ps"
  by (induction ps arbitrary: k m c g ps' k' m' c' g')
     (auto split: if_splits prod.splits)

lemma Burst_loop_length:
  "Burst_loop P cfg amount ps k g = (ps', g') \<Longrightarrow> length ps' = length ps"
  by (induction ps arbitrary: k g ps' g')
     (auto simp: Let_def split: if_splits prod.splits)

lemma count_split: "activeCount ps + inactiveCount ps = length ps"
  unfolding activeCount_def inactiveCount_def
  by (rule sum_length_filter_compl)

lemma Update_loop_counter:
  "Update_loop P cfg em dt ps k m c g = (ps', k', m', c', g') \<Longrightarrow>
     c' = c + activeCount ps + spawnCount em k ps
   \<and> k' = k - spawnCount em k ps
   \<and> m' = ((\<lambda>v. round_float P (v - 1)) ^^ spawnCount em k ps) m"
proof (induction ps arbitrary: k m c g ps' k' m' c' g')
  case Nil
  then show ?case by (simp add: activeCount_def inactiveCount_def spawnCount_def)
next
  case (Cons p ps)
  show ?case
  proof (cases "active p")
    case True
    with Cons.prems obtain qs where
      "Update_loop P cfg em dt ps k m (c + 1) g = (qs, k', m', c', g')"
      by (auto split: prod.splits)
    from Cons.IH[OF this] True show ?thesis
      by (simp add: activeCount_def inactiveCount_def spawnCount_def)
  next
    case False
    show ?thesis
    proof (cases "em \<and> k > 0")
      case True
      with False Cons.prems obtain qs g1 where
        "Update_loop P cfg em dt ps (k - 1) (round_float P (m - 1)) (c + 1) g1
           = (qs, k', m', c', g')"
        by (auto split: prod.splits)
      note IH = Cons.IH[OF this]
      have sc: "spawnCount em k (p # ps) = Suc (spawnCount em (k - 1) ps)"
        using True False by (auto simp: spawnCount_def inactiveCount_def min_def)
      have ac: "activeCount (p # ps) = activeCount ps"
        using False by (simp add: activeCount_def)
      have sw: "((\<lambda>v. round_float P (v - 1)) ^^ n) (round_float P (m - 1))
                  = round_float P (((\<lambda>v. round_float P (v - 1)) ^^ n) m - 1)" for n
        using funpow_swap1[of "\<lambda>v. round_float P (v - 1)" n m] by simp
      show ?thesis unfolding sc ac using IH by (simp add: sw)
    next
      case nospawn: False
      with False Cons.prems obtain qs where
        "Update_loop P cfg em dt ps k m c g = (qs, k', m', c', g')"
        by (auto split: prod.splits)
      from Cons.IH[OF this] nospawn False show ?thesis
        by (auto simp: activeCount_def inactiveCount_def spawnCount_def min_def)
    qed
  qed
qed

lemma Update_loop_active_after:
  "Update_loop P cfg em dt ps k m c g = (ps', k', m', c', g') \<Longrightarrow>
     c + activeCount ps' \<le> c'"
proof (induction ps arbitrary: k m c g ps' k' m' c' g')
  case Nil
  then show ?case by (simp add: activeCount_def)
next
  case (Cons p ps)
  show ?case
  proof (cases "active p")
    case True
    with Cons.prems obtain qs where
      *: "Update_loop P cfg em dt ps k m (c + 1) g = (qs, k', m', c', g')"
      and "ps' = Particle_Update (round_float P) dt cfg p # qs"
      by (auto split: prod.splits)
    from Cons.IH[OF *] this(2) show ?thesis
      by (simp add: activeCount_def)
  next
    case False
    show ?thesis
    proof (cases "em \<and> k > 0")
      case True
      with False Cons.prems obtain qs p1 g1 where
        *: "Update_loop P cfg em dt ps (k - 1) (round_float P (m - 1)) (c + 1) g1
              = (qs, k', m', c', g')"
        and "ps' = Particle_Update (round_float P) dt cfg (p1::Particle) # qs"
        by (auto split: prod.splits)
      from Cons.IH[OF *] this(2) show ?thesis
        by (simp add: activeCount_def)
    next
      case nospawn: False
      with False Cons.prems obtain qs where
        *: "Update_loop P cfg em dt ps k m c g = (qs, k', m', c', g')"
        and "ps' = p # qs"
        by (auto split: prod.splits)
      from Cons.IH[OF *] this(2) False show ?thesis
        by (simp add: activeCount_def)
    qed
  qed
qed

lemma Update_loop_idle:
  "\<forall>p \<in> set ps. \<not> active p \<Longrightarrow>
     Update_loop P cfg False dt ps k m c g = (ps, k, m, c, g)"
  by (induction ps) auto

text \<open>
  \<^verbatim>\<open>Emitter::Update\<close> has no defined result exactly when the emitter is emitting and the
  accumulator, after the increment, does not convert to \<^verbatim>\<open>size_t\<close>.
\<close>

lemma Emitter_Update_undefined_iff:
  "Emitter_Update P dt e g = None \<longleftrightarrow>
     isEmitting e
     \<and> float_to_size_t
         (round_float P
            (mustEmit e
             + round_float P (dt * round_float P (real (cfg_emissionRate (config e))))))
         = None"
  by (auto simp: Emitter_Update_def Let_def split: option.splits prod.splits)

lemma float_to_size_t_defined:
  "0 \<le> v \<Longrightarrow> v < 2 ^ 64 \<Longrightarrow> float_to_size_t v = Some (nat \<lfloor>v\<rfloor>)"
  by (simp add: float_to_size_t_def truncate_float_def floor_less_iff)

text \<open>What one call of \<^verbatim>\<open>Emitter::Update\<close> returns, whenever it returns.\<close>

lemma Emitter_Update_result:
  assumes "Emitter_Update P dt e g = Some (n, e', g')"
  shows "length (particles e') = length (particles e)"
    and "config e' = config e"
    and "isEmitting e' = isEmitting e"
    and "activeCount (particles e) \<le> n"
    and "activeCount (particles e') \<le> n"
    and "n \<le> length (particles e)"
proof -
  let ?m0 = "if isEmitting e
             then round_float P
                    (mustEmit e
                     + round_float P (dt * round_float P (real (cfg_emissionRate (config e)))))
             else mustEmit e"
  from assms obtain k where
    k: "(if isEmitting e then float_to_size_t ?m0 else Some 0) = Some k"
    by (auto simp: Emitter_Update_def Let_def split: option.splits)
  obtain ps k' m' c' g1 where
    loop: "Update_loop P (config e) (isEmitting e) dt (particles e) k ?m0 0 g = (ps, k', m', c', g1)"
    by (metis prod_cases5)
  from assms k loop have res: "n = c'" "e' = e\<lparr>mustEmit := m', particles := ps\<rparr>"
    by (auto simp: Emitter_Update_def Let_def)
  from res Update_loop_length[OF loop] show "length (particles e') = length (particles e)"
    by simp
  from res show "config e' = config e" "isEmitting e' = isEmitting e" by simp_all
  from Update_loop_counter[OF loop] res show "activeCount (particles e) \<le> n" by simp
  from Update_loop_active_after[OF loop] res show "activeCount (particles e') \<le> n" by simp
  have "spawnCount (isEmitting e) k (particles e) \<le> inactiveCount (particles e)"
    by (simp add: spawnCount_def)
  with Update_loop_counter[OF loop] res count_split[of "particles e"]
  show "n \<le> length (particles e)" by simp
qed

lemma Burst_result:
  assumes "Burst P e g = (e', g')"
  shows "length (particles e') = length (particles e)"
    and "config e' = config e"
    and "isEmitting e' = isEmitting e"
proof -
  obtain amount g1 where a: "IntRange_RandomValue P (cfg_burst (config e)) g = (amount, g1)"
    by (cases "IntRange_RandomValue P (cfg_burst (config e)) g")
  obtain ps g2 where l: "Burst_loop P (config e) amount (particles e) 0 g1 = (ps, g2)"
    by (cases "Burst_loop P (config e) amount (particles e) 0 g1")
  from assms a l have e': "e' = e\<lparr>particles := ps\<rparr>" by (simp add: Burst_def)
  from e' Burst_loop_length[OF l] show "length (particles e') = length (particles e)" by simp
  from e' show "config e' = config e" "isEmitting e' = isEmitting e" by simp_all
qed

lemma run_pool_invariant:
  "run P cs e0 g = Some (ns, e, g') \<Longrightarrow>
     (\<forall>n \<in> set ns. n \<le> length (particles e0))
   \<and> length (particles e) = length (particles e0)
   \<and> config e = config e0"
proof (induction cs arbitrary: e0 g ns)
  case Nil
  then show ?case by simp
next
  case (Cons c cs)
  show ?case
  proof (cases c)
    case CallStart
    with Cons.prems have "run P cs (Start e0) g = Some (ns, e, g')" by simp
    from Cons.IH[OF this] show ?thesis by (simp add: Start_def)
  next
    case CallStop
    with Cons.prems have "run P cs (Stop e0) g = Some (ns, e, g')" by simp
    from Cons.IH[OF this] show ?thesis by (simp add: Stop_def)
  next
    case CallBurst
    obtain e1 g1 where b: "Burst P e0 g = (e1, g1)" by (cases "Burst P e0 g")
    with CallBurst Cons.prems have "run P cs e1 g1 = Some (ns, e, g')" by simp
    from Cons.IH[OF this] Burst_result[OF b] show ?thesis by simp
  next
    case (CallUpdate dt)
    with Cons.prems obtain n e1 g1 ms where
      u: "Emitter_Update P dt e0 g = Some (n, e1, g1)"
      and r: "run P cs e1 g1 = Some (ms, e, g')"
      and ns: "ns = n # ms"
      by (auto split: option.splits)
    from Cons.IH[OF r] Emitter_Update_result[OF u] ns show ?thesis by simp
  qed
qed

lemma Emitter_ctor_pool:
  "length (particles (Emitter_ctor cfg)) = cfg_capacity cfg"
  "cfg_capacity (config (Emitter_ctor cfg)) = cfg_capacity cfg"
  "\<forall>p \<in> set (particles (Emitter_ctor cfg)). \<not> active p"
  "\<not> isEmitting (Emitter_ctor cfg)"
  by (simp_all add: Emitter_ctor_def Let_def Particle_zero_def)


subsection \<open>Capacity\<close>

lemma eval_run_spark:
  "map_option fst
     (run scripted_Platform [CallStart, CallBurst, CallUpdate (1 / 10), CallStop, CallUpdate 2]
        (Emitter_ctor sparkConfig) []) = Some [2, 2]"
  by (simp add: Emitter_ctor_def Start_def Stop_def Burst_def IntRange_RandomValue_def
      Emitter_Update_def float_to_size_t_def truncate_float_def size_t_of_int_def
      Init_def FloatRange_RandomValue_def scripted_Platform_def sparkConfig_def
      Particle_Update_def IsExpired_def Particle_zero_def Let_def numeral_2_eq_2
      grid_round_def)

text \<open>
  Claim C1. Whatever sequence of \<^verbatim>\<open>Start\<close>, \<^verbatim>\<open>Stop\<close>, \<^verbatim>\<open>Burst\<close> and \<^verbatim>\<open>Update\<close>
  calls a freshly constructed emitter has gone through, every count an \<^verbatim>\<open>Update\<close> has
  returned is at most the configured capacity, the pool has exactly \<open>capacity\<close> slots,
  and the configured capacity is the one given to the constructor. Every moment of the
  emitter's life is the end of such a sequence.
\<close>

theorem pool_capacity_invariant:
  assumes "run P cs (Emitter_ctor cfg) g = Some (ns, e, g')"
  shows "(\<forall>n \<in> set ns. n \<le> cfg_capacity cfg)
       \<and> length (particles e) = cfg_capacity cfg
       \<and> cfg_capacity (config e) = cfg_capacity cfg
       \<and> activeCount (particles e) \<le> cfg_capacity cfg"
proof -
  from run_pool_invariant[OF assms] Emitter_ctor_pool(1,2)[of cfg]
  have "\<forall>n \<in> set ns. n \<le> cfg_capacity cfg"
    and len: "length (particles e) = cfg_capacity cfg"
    and "cfg_capacity (config e) = cfg_capacity cfg"
    by simp_all
  moreover from len count_split[of "particles e"]
  have "activeCount (particles e) \<le> cfg_capacity cfg"
    by simp
  ultimately show ?thesis by simp
qed

theorem pool_capacity_invariant_witness:
  "map_option fst
     (run scripted_Platform [CallStart, CallBurst, CallUpdate (1 / 10), CallStop, CallUpdate 2]
        (Emitter_ctor sparkConfig) []) = Some [2, 2]
   \<and> map_option (length \<circ> particles \<circ> fst \<circ> snd)
     (run scripted_Platform [CallStart, CallBurst, CallUpdate (1 / 10), CallStop, CallUpdate 2]
        (Emitter_ctor sparkConfig) []) = Some (cfg_capacity sparkConfig)
   \<and> cfg_capacity sparkConfig = 2"
proof -
  let ?r = "run scripted_Platform [CallStart, CallBurst, CallUpdate (1 / 10), CallStop, CallUpdate 2]
              (Emitter_ctor sparkConfig) []"
  from eval_run_spark obtain e g' where r: "?r = Some ([2, 2], e, g')"
    by (cases ?r) auto
  from pool_capacity_invariant[OF r] have "length (particles e) = cfg_capacity sparkConfig"
    by simp
  with r show ?thesis by (simp add: sparkConfig_def)
qed

subsection \<open>The idle emitter\<close>

lemma run_idle:
  "never_emitting (isEmitting e0) cs \<Longrightarrow> \<forall>p \<in> set (particles e0). \<not> active p \<Longrightarrow>
     \<exists>ns e. run P cs e0 g = Some (ns, e, g)
        \<and> ns = replicate (count_updates cs) 0
        \<and> particles e = particles e0"
proof (induction cs arbitrary: e0)
  case Nil
  then show ?case by simp
next
  case (Cons c cs)
  show ?case
  proof (cases c)
    case CallStart
    with Cons.prems have "never_emitting (isEmitting (Start e0)) cs"
      and "\<forall>p \<in> set (particles (Start e0)). \<not> active p"
      by (simp_all add: Start_def)
    from Cons.IH[OF this] CallStart show ?thesis by (simp add: Start_def)
  next
    case CallStop
    with Cons.prems have "never_emitting (isEmitting (Stop e0)) cs"
      and "\<forall>p \<in> set (particles (Stop e0)). \<not> active p"
      by (simp_all add: Stop_def)
    from Cons.IH[OF this] CallStop show ?thesis by (simp add: Stop_def)
  next
    case CallBurst
    with Cons.prems show ?thesis by simp
  next
    case (CallUpdate dt)
    with Cons.prems have off: "\<not> isEmitting e0" and rest: "never_emitting (isEmitting e0) cs"
      by auto
    from off Cons.prems(2) have u: "Emitter_Update P dt e0 g = Some (0, e0, g)"
      by (simp add: Emitter_Update_def Update_loop_idle)
    from Cons.IH[OF rest Cons.prems(2)] u CallUpdate show ?thesis by auto
  qed
qed


text \<open>
  Claim C8. On a freshly constructed emitter, take any sequence of calls without
  \<^verbatim>\<open>Burst\<close> in which every \<^verbatim>\<open>Update\<close> finds \<^verbatim>\<open>isEmitting\<close> false (\<^verbatim>\<open>Start\<close> is never
  called, or \<^verbatim>\<open>Stop\<close> is called between it and the next \<^verbatim>\<open>Update\<close>). Then every
  \<^verbatim>\<open>Update\<close> of the sequence returns, and returns 0, whatever its \<open>dt\<close>; every slot of
  the pool is inactive at the end; and the random source has not been drawn from.
\<close>

theorem idle_emitter_stays_empty:
  assumes "never_emitting False cs"
  shows "\<exists>ns e. run P cs (Emitter_ctor cfg) g = Some (ns, e, g)
           \<and> ns = replicate (count_updates cs) 0
           \<and> (\<forall>p \<in> set (particles e). \<not> active p)
           \<and> activeCount (particles e) = 0"
proof -
  have off: "never_emitting (isEmitting (Emitter_ctor cfg)) cs"
    using assms Emitter_ctor_pool(4)[of cfg] by simp
  from run_idle[OF off Emitter_ctor_pool(3), of P g]
  obtain ns e where r: "run P cs (Emitter_ctor cfg) g = Some (ns, e, g)"
    and ns: "ns = replicate (count_updates cs) 0"
    and ps: "particles e = particles (Emitter_ctor cfg)"
    by blast
  from ps Emitter_ctor_pool(3)[of cfg] have "\<forall>p \<in> set (particles e). \<not> active p"
    by simp
  moreover from this have "activeCount (particles e) = 0"
    by (simp add: activeCount_def)
  ultimately show ?thesis using r ns by blast
qed

theorem idle_emitter_stays_empty_witness:
  "never_emitting False [CallUpdate 1, CallStart, CallStop, CallUpdate 30]
   \<and> map_option fst
       (run scripted_Platform [CallUpdate 1, CallStart, CallStop, CallUpdate 30]
          (Emitter_ctor emberEmitterConfig) []) = Some [0, 0]
   \<and> map_option (activeCount \<circ> particles \<circ> fst \<circ> snd)
       (run scripted_Platform [CallUpdate 1, CallStart, CallStop, CallUpdate 30]
          (Emitter_ctor emberEmitterConfig) []) = Some 0"
proof -
  have h: "never_emitting False [CallUpdate 1, CallStart, CallStop, CallUpdate 30]"
    by simp
  from idle_emitter_stays_empty[OF h, of scripted_Platform emberEmitterConfig "[]"]
  obtain ns e where
    "run scripted_Platform [CallUpdate 1, CallStart, CallStop, CallUpdate 30]
       (Emitter_ctor emberEmitterConfig) [] = Some (ns, e, [])"
    and "ns = replicate (count_updates [CallUpdate 1, CallStart, CallStop, CallUpdate 30]) 0"
    and "activeCount (particles e) = 0"
    by blast
  with h show ?thesis by (simp add: numeral_2_eq_2)
qed

subsection \<open>What the returned count counts\<close>

lemma eval_run_expiring:
  "map_option fst
     (run scripted_Platform [CallBurst, CallUpdate (1 / 2), CallUpdate 1]
        (Emitter_ctor sparkConfig) []) = Some [1, 1]"
  "map_option (activeCount \<circ> particles \<circ> fst \<circ> snd)
     (run scripted_Platform [CallBurst, CallUpdate (1 / 2), CallUpdate 1]
        (Emitter_ctor sparkConfig) []) = Some 0"
  by (simp_all add: Emitter_ctor_def Burst_def IntRange_RandomValue_def activeCount_def
      Emitter_Update_def size_t_of_int_def
      Init_def FloatRange_RandomValue_def scripted_Platform_def sparkConfig_def
      Particle_Update_def IsExpired_def Particle_zero_def Let_def numeral_2_eq_2
      grid_round_def)

lemma eval_Update_halfSpark:
  "activeCount (particles halfSparkEmitter) = 1"
  "map_option fst (Emitter_Update scripted_Platform 1 halfSparkEmitter []) = Some 1"
  "map_option (activeCount \<circ> particles \<circ> fst \<circ> snd)
     (Emitter_Update scripted_Platform 1 halfSparkEmitter []) = Some 0"
  by (simp_all add: halfSparkEmitter_def halfSpark_def spark_eq activeCount_def
      Emitter_Update_def Particle_Update_def IsExpired_def Particle_zero_def Let_def
      scripted_Platform_def grid_round_def)

text \<open>
  Claim C10. The count \<^verbatim>\<open>Emitter::Update\<close> returns is the number of slots that were
  active before the call plus the number of slots the call initialised, so it is at
  least the number of particles active before the call and at least the number still
  active after it: a particle that expires in this update has been counted. The count
  can be strictly greater than the number of particles active after the call: on the
  fresh spark emitter, \<^verbatim>\<open>Burst\<close> activates one spark of lifetime 1, \<^verbatim>\<open>Update(1/2)\<close> returns 1,
  and \<^verbatim>\<open>Update(1)\<close> returns 1 again and leaves no particle active.
\<close>

theorem Update_counts_expiring_particles:
  "(Emitter_Update P dt e g = Some (n, e', g') \<longrightarrow>
      (\<exists>k. n = activeCount (particles e)
                + spawnCount (isEmitting e) k (particles e))
      \<and> activeCount (particles e) \<le> n
      \<and> activeCount (particles e') \<le> n)
   \<and> map_option fst
       (run scripted_Platform [CallBurst, CallUpdate (1 / 2), CallUpdate 1]
          (Emitter_ctor sparkConfig) []) = Some [1, 1]
   \<and> map_option (activeCount \<circ> particles \<circ> fst \<circ> snd)
       (run scripted_Platform [CallBurst, CallUpdate (1 / 2), CallUpdate 1]
          (Emitter_ctor sparkConfig) []) = Some 0"
proof -
  have "(\<exists>k. n = activeCount (particles e) + spawnCount (isEmitting e) k (particles e))
        \<and> activeCount (particles e) \<le> n \<and> activeCount (particles e') \<le> n"
    if u: "Emitter_Update P dt e g = Some (n, e', g')"
  proof -
    let ?m0 = "if isEmitting e
               then round_float P
                      (mustEmit e
                       + round_float P (dt * round_float P (real (cfg_emissionRate (config e)))))
               else mustEmit e"
    from u obtain k where
      k: "(if isEmitting e then float_to_size_t ?m0 else Some 0) = Some k"
      by (auto simp: Emitter_Update_def Let_def split: option.splits)
    obtain ps k' m' c' g1 where
      loop: "Update_loop P (config e) (isEmitting e) dt (particles e) k ?m0 0 g
               = (ps, k', m', c', g1)"
      by (metis prod_cases5)
    from u k loop have "n = c'" by (auto simp: Emitter_Update_def Let_def)
    with Update_loop_counter[OF loop]
    have "n = activeCount (particles e) + spawnCount (isEmitting e) k (particles e)"
      by simp
    with Emitter_Update_result(4,5)[OF u] show ?thesis by blast
  qed
  with eval_run_expiring show ?thesis by blast
qed

theorem Update_counts_expiring_particles_witness:
  "map_option fst (Emitter_Update scripted_Platform 1 halfSparkEmitter []) = Some 1
   \<and> activeCount (particles halfSparkEmitter) \<le> 1
   \<and> map_option (activeCount \<circ> particles \<circ> fst \<circ> snd)
       (Emitter_Update scripted_Platform 1 halfSparkEmitter []) = Some 0"
proof -
  let ?u = "Emitter_Update scripted_Platform 1 halfSparkEmitter []"
  from eval_Update_halfSpark(2) obtain e' g' where u: "?u = Some (1, e', g')"
    by (cases ?u) auto
  from u Update_counts_expiring_particles
         [of scripted_Platform 1 halfSparkEmitter "[]" 1 e' g']
  have "activeCount (particles halfSparkEmitter) \<le> 1"
    by blast
  with eval_Update_halfSpark(2,3) show ?thesis by simp
qed

subsection \<open>Burst\<close>

lemma Burst_loop_count:
  "emitted + length ps < 2 ^ 64 \<Longrightarrow> Burst_loop P cfg amount ps emitted g = (ps', g') \<Longrightarrow>
     activeCount ps'
       = activeCount ps + min (inactiveCount ps) (max 1 (size_t_of_int amount - emitted))"
proof (induction ps arbitrary: emitted g ps' g')
  case Nil
  then show ?case by (simp add: activeCount_def inactiveCount_def)
next
  case (Cons p ps)
  show ?case
  proof (cases "active p")
    case True
    with Cons.prems(2) obtain qs where
      l: "Burst_loop P cfg amount ps emitted g = (qs, g')" and ps': "ps' = p # qs"
      by (auto split: prod.splits)
    from Cons.prems(1) have "emitted + length ps < 2 ^ 64" by simp
    from Cons.IH[OF this l] ps' True show ?thesis
      by (simp add: activeCount_def inactiveCount_def)
  next
    case False
    obtain p1 g1 where i: "Init P cfg p g = (p1, g1)" by (cases "Init P cfg p g")
    have p1: "active p1" using Init_active[of P cfg p g] i by simp
    from Cons.prems(1) have nowrap: "(emitted + 1) mod 2 ^ 64 = emitted + 1" by simp
    show ?thesis
    proof (cases "size_t_of_int amount \<le> emitted + 1")
      case True
      with False i nowrap Cons.prems(2) have "ps' = p1 # ps" by (simp add: Let_def)
      with p1 False True show ?thesis
        by (simp add: activeCount_def inactiveCount_def)
    next
      case more: False
      with False i nowrap Cons.prems(2) obtain qs where
        l: "Burst_loop P cfg amount ps (emitted + 1) g1 = (qs, g')" and ps': "ps' = p1 # qs"
        by (auto simp: Let_def split: prod.splits)
      from Cons.prems(1) have "(emitted + 1) + length ps < 2 ^ 64" by simp
      note IH = Cons.IH[OF this l]
      have a: "activeCount ps' = Suc (activeCount qs)"
        using ps' p1 by (simp add: activeCount_def)
      have b: "activeCount (p # ps) = activeCount ps"
        "inactiveCount (p # ps) = Suc (inactiveCount ps)"
        using False by (simp_all add: activeCount_def inactiveCount_def)
      show ?thesis unfolding a b using IH more by arith
    qed
  qed
qed

lemma Burst_loop_keeps_active:
  "Burst_loop P cfg amount ps emitted g = (ps', g') \<Longrightarrow> i < length ps \<Longrightarrow> active (ps ! i) \<Longrightarrow>
     ps' ! i = ps ! i"
proof (induction ps arbitrary: emitted g ps' g' i)
  case Nil
  then show ?case by simp
next
  case (Cons p ps)
  show ?case
  proof (cases i)
    case 0
    with Cons.prems show ?thesis by (auto simp: Let_def split: prod.splits if_splits)
  next
    case (Suc j)
    with Cons.prems have j: "j < length ps" "active (ps ! j)" by simp_all
    show ?thesis
    proof (cases "active p")
      case True
      with Cons.prems(1) obtain qs where
        l: "Burst_loop P cfg amount ps emitted g = (qs, g')" and ps': "ps' = p # qs"
        by (auto split: prod.splits)
      from Cons.IH[OF l j] ps' Suc show ?thesis by simp
    next
      case False
      obtain p1 g1 where i: "Init P cfg p g = (p1, g1)" by (cases "Init P cfg p g")
      show ?thesis
      proof (cases "size_t_of_int amount \<le> (emitted + 1) mod 2 ^ 64")
        case True
        with False i Cons.prems(1) have "ps' = p1 # ps" by (simp add: Let_def)
        with Suc show ?thesis by simp
      next
        case more: False
        with False i Cons.prems(1) obtain qs where
          l: "Burst_loop P cfg amount ps ((emitted + 1) mod 2 ^ 64) g1 = (qs, g')"
          and ps': "ps' = p1 # qs"
          by (auto simp: Let_def split: prod.splits)
        from Cons.IH[OF l j] ps' Suc show ?thesis by simp
      qed
    qed
  qed
qed

text \<open>
  What \<^verbatim>\<open>Burst\<close> does on a pool of fewer than \<open>2^64\<close> slots: it activates
  \<open>min inactiveCount (max 1 amount)\<close> slots, \<open>amount\<close> read as a \<^verbatim>\<open>size_t\<close>, and leaves
  every active slot as it was.
\<close>

lemma Burst_count:
  assumes "length (particles e) < 2 ^ 64"
  shows "activeCount (particles (fst (Burst P e g)))
           = activeCount (particles e)
             + min (inactiveCount (particles e))
                 (max 1 (size_t_of_int (fst (IntRange_RandomValue P (cfg_burst (config e)) g))))"
proof -
  obtain amount g1 where a: "IntRange_RandomValue P (cfg_burst (config e)) g = (amount, g1)"
    by (cases "IntRange_RandomValue P (cfg_burst (config e)) g")
  obtain ps g2 where l: "Burst_loop P (config e) amount (particles e) 0 g1 = (ps, g2)"
    by (cases "Burst_loop P (config e) amount (particles e) 0 g1")
  from assms have "0 + length (particles e) < 2 ^ 64" by simp
  from Burst_loop_count[OF this l] a l show ?thesis by (simp add: Burst_def)
qed

lemma Burst_keeps_active:
  assumes "i < length (particles e)" and "active (particles e ! i)"
  shows "particles (fst (Burst P e g)) ! i = particles e ! i"
proof -
  obtain amount g1 where a: "IntRange_RandomValue P (cfg_burst (config e)) g = (amount, g1)"
    by (cases "IntRange_RandomValue P (cfg_burst (config e)) g")
  obtain ps g2 where l: "Burst_loop P (config e) amount (particles e) 0 g1 = (ps, g2)"
    by (cases "Burst_loop P (config e) amount (particles e) 0 g1")
  from Burst_loop_keeps_active[OF l assms] a l show ?thesis by (simp add: Burst_def)
qed

text \<open>
  Claim C3 fails on the code where the sampled amount is 0. The ember emitter of the demo
  program has \<open>burst = {0, 0}\<close>, so the sampled amount is 0; its fresh pool has 100
  inactive slots and no active one. \<^verbatim>\<open>Burst\<close> initialises the first slot before it
  compares the counter with the amount, and one particle is active afterwards, where
  \<open>min(sampledAmount, inactiveCount) = 0\<close>.
\<close>

theorem Burst_with_zero_amount_activates_one:
  "fst (IntRange_RandomValue scripted_Platform
          (cfg_burst (config (Emitter_ctor emberEmitterConfig))) []) = 0
   \<and> inactiveCount (particles (Emitter_ctor emberEmitterConfig)) = 100
   \<and> activeCount (particles (Emitter_ctor emberEmitterConfig)) = 0
   \<and> activeCount (particles (fst (Burst scripted_Platform (Emitter_ctor emberEmitterConfig) [])))
       = 1"
proof -
  let ?e = "Emitter_ctor emberEmitterConfig"
  have amount: "fst (IntRange_RandomValue scripted_Platform (cfg_burst (config ?e)) []) = 0"
    by (simp add: IntRange_RandomValue_def scripted_Platform_def Emitter_ctor_def
        emberEmitterConfig_def Let_def)
  have pool: "particles ?e = replicate 100 Particle_zero"
    by (simp add: Emitter_ctor_def emberEmitterConfig_def Let_def)
  have ina: "inactiveCount (particles ?e) = 100" and act: "activeCount (particles ?e) = 0"
    unfolding pool by (simp_all add: inactiveCount_def activeCount_def Particle_zero_def)
  have "length (particles ?e) < 2 ^ 64" unfolding pool by simp
  from Burst_count[OF this, of scripted_Platform "[]"] amount ina act
  have "activeCount (particles (fst (Burst scripted_Platform ?e []))) = 1"
    by (simp add: size_t_of_int_def)
  with amount ina act show ?thesis by simp
qed


subsection \<open>The spawn accumulator\<close>







text \<open>
  The decrements of the accumulator are exact: a kept value stays kept as long as it
  does not fall below 0.
\<close>

lemma decrement_exact:
  assumes fr: "float_rounding rnd B \<epsilon>" and kept: "rnd v = v" and vB: "v \<le> B"
  shows "real n \<le> v \<Longrightarrow>
           ((\<lambda>x. rnd (x - 1)) ^^ n) v = v - real n \<and> rnd (v - real n) = v - real n"
proof (induction n)
  case 0
  show ?case using kept by simp
next
  case (Suc n)
  then have IH: "((\<lambda>x. rnd (x - 1)) ^^ n) v = v - real n" "rnd (v - real n) = v - real n"
    by simp_all
  have "1 \<le> v - real n" "v - real n \<le> B" using Suc.prems vB by simp_all
  from float_roundingD(5)[OF fr IH(2) this]
  have step: "rnd (v - real n - 1) = v - real n - 1" .
  have e: "v - real (Suc n) = v - real n - 1" by simp
  show ?case unfolding e using IH(1) step float_roundingD(4)[OF fr]
    by (simp add: step)
qed


text \<open>
  With non-negative elapsed times the accumulator never becomes negative: the states the
  next theorem is about are the ones an emitter reaches.
\<close>

lemma Emitter_Update_mustEmit_nonneg:
  assumes fr: "float_rounding (round_float P) B \<epsilon>" and B0: "0 \<le> B"
    and dt: "0 \<le> dt" and m0: "0 \<le> mustEmit e"
    and MB: "round_float P
               (mustEmit e
                + round_float P (dt * round_float P (real (cfg_emissionRate (config e))))) \<le> B"
    and u: "Emitter_Update P dt e g = Some (n, e', g')"
  shows "0 \<le> mustEmit e'"
proof -
  let ?rnd = "round_float P"
  let ?M = "?rnd (mustEmit e + ?rnd (dt * ?rnd (real (cfg_emissionRate (config e)))))"
  let ?m0 = "if isEmitting e then ?M else mustEmit e"
  note mono = float_roundingD(1)[OF fr]
  have r0: "?rnd 0 = 0" by (rule float_rounding_zero(1)[OF fr B0])
  have "0 \<le> ?rnd (real (cfg_emissionRate (config e)))"
    using mono[of 0 "real (cfg_emissionRate (config e))"] r0 by simp
  with dt have "0 \<le> dt * ?rnd (real (cfg_emissionRate (config e)))" by simp
  from mono[OF this] r0 m0
  have "0 \<le> mustEmit e + ?rnd (dt * ?rnd (real (cfg_emissionRate (config e))))" by simp
  from mono[OF this] r0 have M0: "0 \<le> ?M" by simp
  from u obtain k where
    k: "(if isEmitting e then float_to_size_t ?m0 else Some 0) = Some k"
    by (auto simp: Emitter_Update_def Let_def split: option.splits)
  obtain ps k' m' c' g1 where
    loop: "Update_loop P (config e) (isEmitting e) dt (particles e) k ?m0 0 g
             = (ps, k', m', c', g1)"
    by (metis prod_cases5)
  from u k loop have e': "mustEmit e' = m'" by (auto simp: Emitter_Update_def Let_def)
  note cnt = Update_loop_counter[OF loop]
  show ?thesis
  proof (cases "isEmitting e")
    case True
    with k have "float_to_size_t ?M = Some k" by simp
    then have "k = nat \<lfloor>?M\<rfloor>"
      using M0 by (simp add: float_to_size_t_def truncate_float_def split: if_splits)
    then have "real k \<le> ?M" using M0 by simp
    moreover have "spawnCount (isEmitting e) k (particles e) \<le> k"
      by (simp add: spawnCount_def)
    ultimately have s: "real (spawnCount (isEmitting e) k (particles e)) \<le> ?M" by linarith
    have kept: "?rnd ?M = ?M" by (rule float_roundingD(4)[OF fr])
    from decrement_exact[OF fr kept MB s] cnt True e' s show ?thesis by simp
  next
    case False
    with cnt e' m0 show ?thesis by (simp add: spawnCount_def)
  qed
qed





section \<open>The colour of a drawn particle\<close>

lemma uint8_bounds:
  fixes k :: "8 word"
  shows "0 \<le> uint k" "uint k \<le> 255"
proof -
  show "0 \<le> uint k" by simp
  have "uint k < 2 ^ LENGTH(8)" by (rule uint_bounded)
  then show "uint k \<le> 255" by simp
qed

lemma float_to_uchar_floor:
  assumes "0 \<le> v" "v < 256"
  shows "float_to_uchar v = Some (word_of_int \<lfloor>v\<rfloor>)"
    and "uint (word_of_int \<lfloor>v\<rfloor> :: 8 word) = \<lfloor>v\<rfloor>"
proof -
  from assms have fl: "0 \<le> \<lfloor>v\<rfloor>" "\<lfloor>v\<rfloor> < 256" by (simp_all add: floor_less_iff)
  have tr: "truncate_float v = \<lfloor>v\<rfloor>" using assms by (simp add: truncate_float_def)
  show "float_to_uchar v = Some (word_of_int \<lfloor>v\<rfloor>)"
    unfolding float_to_uchar_def tr using fl by simp
  show "uint (word_of_int \<lfloor>v\<rfloor> :: 8 word) = \<lfloor>v\<rfloor>"
    using fl by (simp add: unsigned_of_int take_bit_int_eq_self)
qed

lemma float_to_uchar_channel: "float_to_uchar (real_of_int (uint k)) = Some k"
proof -
  let ?v = "real_of_int (uint k)"
  have v: "0 \<le> ?v" "?v < 256" using uint8_bounds[of k] by linarith+
  have "\<lfloor>?v\<rfloor> = uint k" by (rule floor_of_int)
  with float_to_uchar_floor(1)[OF v] show ?thesis by (simp only: word_of_int_uint)
qed

lemma Color_eta: "\<lparr>cr = cr c, cg = cg c, cb = cb c, ca = ca c\<rparr> = c"
  by (cases c) simp

text \<open>
  One channel under a rounding function: the three roundings of the fraction, the
  product and the sum move the result by at most \<open>257 * \<epsilon>\<close> from the interpolated value,
  and monotonicity keeps it between the two channels, so the conversion is defined.
\<close>

lemma fade_channel_near:
  assumes fr: "float_rounding rnd B \<epsilon>" and B: "255 \<le> B" and f: "0 \<le> f" "f \<le> 1"
  shows "\<exists>w. fade_channel rnd k1 k2 (rnd f) = Some w \<and> near_lerp (257 * \<epsilon>) k1 k2 f w"
proof -
  define a b d where "a = uint k1" and "b = uint k2" and "d = b - a"
  define fh X Q Y S where "fh = rnd f" and "X = real_of_int d * fh" and "Q = rnd X"
    and "Y = Q + real_of_int a" and "S = rnd Y"
  have a: "0 \<le> a" "a \<le> 255" and b: "0 \<le> b" "b \<le> 255"
    unfolding a_def b_def by (rule uint8_bounds)+
  have B0: "0 \<le> B" "1 \<le> B" using B by simp_all
  have eps: "0 \<le> \<epsilon>" by (rule float_rounding_zero(2)[OF fr B0(1)])
  have r0: "rnd 0 = 0" by (rule float_rounding_zero(1)[OF fr B0(1)])
  have r1: "rnd 1 = 1" by (rule float_rounding_one[OF fr B0(2)])
  have dabs: "\<bar>real_of_int d\<bar> \<le> 255" using a b by (simp add: d_def)
  have ra: "rnd (real_of_int a) = real_of_int a"
    by (rule float_roundingD(2)[OF fr]) (use a B in simp)
  have rb: "rnd (real_of_int b) = real_of_int b"
    by (rule float_roundingD(2)[OF fr]) (use b B in simp)
  have rd: "rnd (real_of_int d) = real_of_int d"
    by (rule float_roundingD(2)[OF fr]) (use dabs B in linarith)
  have fh: "0 \<le> fh" "fh \<le> 1"
    using float_roundingD(1)[OF fr f(1)] float_roundingD(1)[OF fr f(2)] r0 r1
    by (simp_all add: fh_def)
  have fe: "\<bar>fh - f\<bar> \<le> \<epsilon>"
    unfolding fh_def using f B by (intro float_roundingD(3)[OF fr]) simp
  have Xrange: "min 0 (real_of_int d) \<le> X \<and> X \<le> max 0 (real_of_int d)"
  proof (cases "0 \<le> d")
    case True
    then have "0 \<le> X" "X \<le> real_of_int d"
      using fh by (simp_all add: X_def mult_left_le)
    then show ?thesis using True by simp
  next
    case False
    then have "real_of_int d \<le> 0" by simp
    then have "X \<le> 0" using fh by (simp add: X_def mult_nonpos_nonneg)
    moreover have "real_of_int d * 1 \<le> real_of_int d * fh"
      using fh \<open>real_of_int d \<le> 0\<close> by (intro mult_left_mono_neg)
    then have "real_of_int d \<le> X" by (simp add: X_def)
    ultimately have "X \<le> 0" "real_of_int d \<le> X" by simp_all
    then show ?thesis using False by simp
  qed
  then have Xabs: "\<bar>X\<bar> \<le> B" using dabs B by (auto simp: min_def max_def split: if_splits)
  have Qe: "\<bar>Q - X\<bar> \<le> \<epsilon>" unfolding Q_def by (rule float_roundingD(3)[OF fr Xabs])
  have Qrange: "min 0 (real_of_int d) \<le> Q \<and> Q \<le> max 0 (real_of_int d)"
  proof -
    from Xrange have "rnd (min 0 (real_of_int d)) \<le> Q" "Q \<le> rnd (max 0 (real_of_int d))"
      unfolding Q_def by (auto intro: float_roundingD(1)[OF fr])
    then show ?thesis using r0 rd by (simp add: min_def max_def split: if_splits)
  qed
  have Yrange: "real_of_int (min a b) \<le> Y \<and> Y \<le> real_of_int (max a b)"
    using Qrange by (auto simp: Y_def d_def min_def max_def split: if_splits)
  then have Yabs: "\<bar>Y\<bar> \<le> B" using a b B by (auto simp: min_def max_def split: if_splits)
  have Se: "\<bar>S - Y\<bar> \<le> \<epsilon>" unfolding S_def by (rule float_roundingD(3)[OF fr Yabs])
  have Srange: "real_of_int (min a b) \<le> S \<and> S \<le> real_of_int (max a b)"
  proof -
    from Yrange have "rnd (real_of_int (min a b)) \<le> S" "S \<le> rnd (real_of_int (max a b))"
      unfolding S_def by (auto intro: float_roundingD(1)[OF fr])
    then show ?thesis using ra rb by (simp add: min_def max_def split: if_splits)
  qed
  then have S: "0 \<le> S" "S < 256" using a b by (auto simp: min_def max_def split: if_splits)
  have "fade_channel rnd k1 k2 (rnd f)
          = float_to_uchar (rnd (rnd (rnd (real_of_int d) * fh) + rnd (real_of_int a)))"
    unfolding fade_channel_def d_def a_def b_def fh_def ..
  also have "\<dots> = float_to_uchar S"
    unfolding rd ra S_def Y_def Q_def X_def ..
  also have "\<dots> = Some (word_of_int \<lfloor>S\<rfloor>)" by (rule float_to_uchar_floor(1)[OF S])
  finally have fade: "fade_channel rnd k1 k2 (rnd f) = Some (word_of_int \<lfloor>S\<rfloor>)" .
  have w: "uint (word_of_int \<lfloor>S\<rfloor> :: 8 word) = \<lfloor>S\<rfloor>" by (rule float_to_uchar_floor(2)[OF S])
  define L where "L = channel_lerp k1 k2 f"
  have L: "L = real_of_int a + real_of_int d * f"
    unfolding L_def channel_lerp_def a_def b_def d_def by (simp only: of_int_diff)
  have "\<bar>real_of_int d * (fh - f)\<bar> = \<bar>real_of_int d\<bar> * \<bar>fh - f\<bar>" by (rule abs_mult)
  also have "\<dots> \<le> 255 * \<epsilon>" using dabs fe eps by (intro mult_mono) simp_all
  finally have de: "\<bar>real_of_int d * (fh - f)\<bar> \<le> 255 * \<epsilon>" .
  have "S - L = (S - Y) + (Q - X) + real_of_int d * (fh - f)"
    unfolding L Y_def X_def by (simp add: algebra_simps)
  with Se Qe de have SL: "\<bar>S - L\<bar> \<le> 257 * \<epsilon>" by linarith
  have fl: "real_of_int \<lfloor>S\<rfloor> \<le> S" "S < real_of_int \<lfloor>S\<rfloor> + 1" by linarith+
  have lo: "min a b \<le> \<lfloor>S\<rfloor>" using Srange by (simp add: le_floor_iff)
  have hi: "\<lfloor>S\<rfloor> \<le> max a b"
  proof -
    from Srange fl(1) have "real_of_int \<lfloor>S\<rfloor> \<le> real_of_int (max a b)" by linarith
    then show ?thesis by (simp only: of_int_le_iff)
  qed
  have "near_lerp (257 * \<epsilon>) k1 k2 f (word_of_int \<lfloor>S\<rfloor>)"
    unfolding near_lerp_def w L_def[symmetric] a_def[symmetric] b_def[symmetric]
    using SL fl lo hi by (intro conjI) linarith+
  with fade show ?thesis by blast
qed

lemma fade_channel_ends:
  assumes fr: "float_rounding rnd B \<epsilon>" and B: "255 \<le> B"
  shows "fade_channel rnd k1 k2 (rnd 0) = Some k1" "fade_channel rnd k1 k2 (rnd 1) = Some k2"
proof -
  define a b where "a = uint k1" and "b = uint k2"
  have a: "0 \<le> a" "a \<le> 255" and b: "0 \<le> b" "b \<le> 255"
    unfolding a_def b_def by (rule uint8_bounds)+
  have B0: "0 \<le> B" "1 \<le> B" using B by simp_all
  have r0: "rnd 0 = 0" by (rule float_rounding_zero(1)[OF fr B0(1)])
  have r1: "rnd 1 = 1" by (rule float_rounding_one[OF fr B0(2)])
  have dabs: "\<bar>real_of_int (b - a)\<bar> \<le> 255" using a b by simp
  have ra: "rnd (real_of_int a) = real_of_int a"
    by (rule float_roundingD(2)[OF fr]) (use a B in simp)
  have rb: "rnd (real_of_int b) = real_of_int b"
    by (rule float_roundingD(2)[OF fr]) (use b B in simp)
  have rd: "rnd (real_of_int (b - a)) = real_of_int (b - a)"
    by (rule float_roundingD(2)[OF fr]) (use dabs B in linarith)
  have "rnd (rnd (rnd (real_of_int (b - a)) * rnd 0) + rnd (real_of_int a)) = real_of_int a"
    by (simp only: rd r0 ra mult_zero_right add_0)
  then show "fade_channel rnd k1 k2 (rnd 0) = Some k1"
    unfolding fade_channel_def a_def b_def by (simp only: float_to_uchar_channel)
  have e: "real_of_int (b - a) + real_of_int a = real_of_int b" by simp
  have "rnd (rnd (rnd (real_of_int (b - a)) * rnd 1) + rnd (real_of_int a)) = real_of_int b"
    by (simp only: rd r1 ra mult_1_right e rb)
  then show "fade_channel rnd k1 k2 (rnd 1) = Some k2"
    unfolding fade_channel_def a_def b_def by (simp only: float_to_uchar_channel)
qed

text \<open>
  Claim C7. Let the rounding of the platform satisfy \<open>float_rounding\<close> with range bound
  \<open>B \<ge> 255\<close> and error bound \<open>\<epsilon>\<close>, and let \<open>p\<close> be an active slot of the pool with \<open>ttl > 0\<close> and
  \<open>0 \<le> age \<le> ttl\<close>, as updates with non-negative \<open>dt\<close> keep it. \<^verbatim>\<open>Draw\<close> issues a draw
  call for \<open>p\<close> whose tint is \<open>LinearFade startColor endColor (age / ttl)\<close>, computed in
  rounded arithmetic. The conversions of the four channels are defined. Each channel
  lies between the start and the end channel, and it is the linear interpolation at the
  fraction \<open>age / ttl\<close> with the fractional part cut off, up to the rounding error
  \<open>257 * \<epsilon>\<close> of the interpolation. At \<open>age = 0\<close> the tint is the start colour in all four
  channels, at \<open>age = ttl\<close> it is the end colour.
\<close>

theorem LinearFade_interpolates_per_channel:
  assumes "float_rounding (round_float P) B \<epsilon>" and "255 \<le> B"
    and "0 < ttl p" and "0 \<le> age p" and "age p \<le> ttl p"
    and "active p" and "p \<in> set (particles e)"
  shows "\<exists>c. (position p, scale p, Some c) \<in> set (Draw P e)
           \<and> LinearFade (round_float P) (cfg_startColor (config e)) (cfg_endColor (config e))
                (round_float P (age p / ttl p)) = Some c
           \<and> near_lerp (257 * \<epsilon>) (cr (cfg_startColor (config e)))
                (cr (cfg_endColor (config e))) (age p / ttl p) (cr c)
           \<and> near_lerp (257 * \<epsilon>) (cg (cfg_startColor (config e)))
                (cg (cfg_endColor (config e))) (age p / ttl p) (cg c)
           \<and> near_lerp (257 * \<epsilon>) (cb (cfg_startColor (config e)))
                (cb (cfg_endColor (config e))) (age p / ttl p) (cb c)
           \<and> near_lerp (257 * \<epsilon>) (ca (cfg_startColor (config e)))
                (ca (cfg_endColor (config e))) (age p / ttl p) (ca c)
           \<and> (age p = 0 \<longrightarrow> c = cfg_startColor (config e))
           \<and> (age p = ttl p \<longrightarrow> c = cfg_endColor (config e))"
proof -
  let ?rnd = "round_float P"
  let ?c1 = "cfg_startColor (config e)" and ?c2 = "cfg_endColor (config e)"
  let ?f = "age p / ttl p"
  note fr = assms(1) and B = assms(2)
  have f: "0 \<le> ?f" "?f \<le> 1" using assms(3-5) by simp_all
  from fade_channel_near[OF fr B f] obtain r' g' b' a' where
    r: "fade_channel ?rnd (cr ?c1) (cr ?c2) (?rnd ?f) = Some r'"
       "near_lerp (257 * \<epsilon>) (cr ?c1) (cr ?c2) ?f r'"
    and g: "fade_channel ?rnd (cg ?c1) (cg ?c2) (?rnd ?f) = Some g'"
       "near_lerp (257 * \<epsilon>) (cg ?c1) (cg ?c2) ?f g'"
    and b: "fade_channel ?rnd (cb ?c1) (cb ?c2) (?rnd ?f) = Some b'"
       "near_lerp (257 * \<epsilon>) (cb ?c1) (cb ?c2) ?f b'"
    and a: "fade_channel ?rnd (ca ?c1) (ca ?c2) (?rnd ?f) = Some a'"
       "near_lerp (257 * \<epsilon>) (ca ?c1) (ca ?c2) ?f a'"
    by metis
  let ?c = "\<lparr>cr = r', cg = g', cb = b', ca = a'\<rparr>"
  have fade: "LinearFade ?rnd ?c1 ?c2 (?rnd ?f) = Some ?c"
    using r(1) g(1) b(1) a(1) by (simp add: LinearFade_def)
  have drawn: "(position p, scale p, Some ?c) \<in> set (Draw P e)"
  proof -
    have "p \<in> set (filter active (particles e))" using assms(6,7) by simp
    then have "(position p, scale p,
                 if ttl p = 0 then None else LinearFade ?rnd ?c1 ?c2 (?rnd ?f))
                 \<in> set (Draw P e)"
      unfolding Draw_def by (simp add: image_iff) blast
    with assms(3) fade show ?thesis by simp
  qed
  have start: "c = ?c1" if "age p = 0" "LinearFade ?rnd ?c1 ?c2 (?rnd ?f) = Some c" for c
  proof -
    from that(1) have "?f = 0" by simp
    with that(2) show ?thesis
      by (simp add: LinearFade_def fade_channel_ends(1)[OF fr B] Color_eta)
  qed
  have fin: "c = ?c2" if "age p = ttl p" "LinearFade ?rnd ?c1 ?c2 (?rnd ?f) = Some c" for c
  proof -
    from that(1) assms(3) have "?f = 1" by simp
    with that(2) show ?thesis
      by (simp add: LinearFade_def fade_channel_ends(2)[OF fr B] Color_eta)
  qed
  show ?thesis
    using drawn fade r(2) g(2) b(2) a(2) start[OF _ fade] fin[OF _ fade]
    by (intro exI[of _ ?c]) simp
qed

lemma eval_fade_halfSpark:
  "LinearFade grid_round (cfg_startColor sparkConfig) (cfg_endColor sparkConfig)
     (grid_round (age halfSpark / ttl halfSpark))
     = Some \<lparr>cr = 255, cg = 100, cb = 0, ca = 127\<rparr>"
  by (simp add: halfSpark_def spark_eq sparkConfig_def LinearFade_def fade_channel_def
      float_to_uchar_def truncate_float_def grid_round_def)

theorem LinearFade_interpolates_witness:
  "float_rounding (round_float scripted_Platform) 255 (1 / 2 ^ 25)
   \<and> 0 < ttl halfSpark \<and> 0 \<le> age halfSpark \<and> age halfSpark \<le> ttl halfSpark
   \<and> active halfSpark \<and> halfSpark \<in> set (particles halfSparkEmitter)
   \<and> (position halfSpark, scale halfSpark, Some \<lparr>cr = 255, cg = 100, cb = 0, ca = 127\<rparr>)
       \<in> set (Draw scripted_Platform halfSparkEmitter)
   \<and> near_lerp (257 * (1 / 2 ^ 25)) (ca (cfg_startColor sparkConfig))
        (ca (cfg_endColor sparkConfig)) (age halfSpark / ttl halfSpark) 127"
proof -
  have rf: "round_float scripted_Platform = grid_round" by (simp add: scripted_Platform_def)
  have fr: "float_rounding (round_float scripted_Platform) 255 (1 / 2 ^ 25)"
    unfolding rf by (rule grid_round_rounding)
  have h: "0 < ttl halfSpark" "0 \<le> age halfSpark" "age halfSpark \<le> ttl halfSpark"
    "active halfSpark" "halfSpark \<in> set (particles halfSparkEmitter)"
    by (simp_all add: halfSpark_def spark_eq halfSparkEmitter_def)
  have cfg: "config halfSparkEmitter = sparkConfig" by (simp add: halfSparkEmitter_def)
  from LinearFade_interpolates_per_channel[OF fr _ h]
  obtain c where
    d: "(position halfSpark, scale halfSpark, Some c) \<in> set (Draw scripted_Platform halfSparkEmitter)"
    and l: "LinearFade (round_float scripted_Platform) (cfg_startColor (config halfSparkEmitter))
           (cfg_endColor (config halfSparkEmitter))
           (round_float scripted_Platform (age halfSpark / ttl halfSpark)) = Some c"
    and n: "near_lerp (257 * (1 / 2 ^ 25)) (ca (cfg_startColor (config halfSparkEmitter)))
        (ca (cfg_endColor (config halfSparkEmitter))) (age halfSpark / ttl halfSpark) (ca c)"
    by auto
  from l eval_fade_halfSpark have c: "c = \<lparr>cr = 255, cg = 100, cb = 0, ca = 127\<rparr>"
    by (simp add: rf cfg)
  from d n c cfg fr h show ?thesis by simp
qed

end
